theory Spec2Isabelle
  imports Complex_Main
begin

section \<open>The OpenStack client of Fleecy-Cloud: backend/services/virual_machine_service.go\<close>

text \<open>
  The service is a chain of blocking calls into three libraries: \<open>net/http\<close> (build a
  request, send it), \<open>encoding/json\<close> (decode a response body into a Go struct) and
  \<open>time\<close> (read the clock). Each method is embedded as a function that takes the trace
  of library calls made so far and returns its Go result together with the extended
  trace. What the libraries answer is not part of the repository; it is the parameter
  \<open>env\<close>. A Go result \<open>(v, err)\<close> is a sum: \<open>Inl\<close> carries the text of the error
  (every error of this file is made by \<open>fmt.Errorf\<close>), \<open>Inr\<close> the value.
  The receiver and the pointer arguments are taken to be non-nil.
\<close>

subsection \<open>Formatting\<close>

text \<open>
  Go strings are byte sequences and the messages of this file are Korean, so each message
  is given as its UTF-8 bytes. \<open>fmt_d\<close> is the verb \<open>%d\<close> on an \<open>int\<close>.
\<close>

fun digits :: "nat \<Rightarrow> string" where
  "digits n =
     (if n < 10 then [''0123456789'' ! n]
      else digits (n div 10) @ [''0123456789'' ! (n mod 10)])"

declare digits.simps [simp del]

definition fmt_d :: "int \<Rightarrow> string" where
  "fmt_d i = (if i < 0 then ''-'' @ digits (nat (- i)) else digits (nat i))"

definition msg_credential_required :: string where
  \<comment> \<open>line 118: application credential information is required\<close>
  "msg_credential_required =
       ''application Credential ''
     @ [CHR 0xEC, CHR 0x9D, CHR 0xB8, CHR 0xEC, CHR 0xA6, CHR 0x9D]
     @ '' ''
     @ [CHR 0xEC, CHR 0xA0, CHR 0x95, CHR 0xEB, CHR 0xB3, CHR 0xB4, CHR 0xEA, CHR 0xB0, CHR 0x80]
     @ '' ''
     @ [CHR 0xED, CHR 0x95, CHR 0x84, CHR 0xEC, CHR 0x9A, CHR 0x94, CHR 0xED, CHR 0x95, CHR 0xA9, CHR 0xEB, CHR 0x8B, CHR 0x88, CHR 0xEB, CHR 0x8B, CHR 0xA4]"

definition msg_new_request_failed :: string where
  \<comment> \<open>lines 129, 162, 249, 324, 433, 509: creating the HTTP request failed\<close>
  "msg_new_request_failed =
       ''HTTP ''
     @ [CHR 0xEC, CHR 0x9A, CHR 0x94, CHR 0xEC, CHR 0xB2, CHR 0xAD]
     @ '' ''
     @ [CHR 0xEC, CHR 0x83, CHR 0x9D, CHR 0xEC, CHR 0x84, CHR 0xB1]
     @ '' ''
     @ [CHR 0xEC, CHR 0x8B, CHR 0xA4, CHR 0xED, CHR 0x8C, CHR 0xA8]
     @ '': ''"

definition msg_auth_request_failed :: string where
  \<comment> \<open>line 136: the authentication request failed\<close>
  "msg_auth_request_failed =
       [CHR 0xEC, CHR 0x9D, CHR 0xB8, CHR 0xEC, CHR 0xA6, CHR 0x9D]
     @ '' ''
     @ [CHR 0xEC, CHR 0x9A, CHR 0x94, CHR 0xEC, CHR 0xB2, CHR 0xAD]
     @ '' ''
     @ [CHR 0xEC, CHR 0x8B, CHR 0xA4, CHR 0xED, CHR 0x8C, CHR 0xA8]
     @ '': ''"

definition msg_auth_failed :: string where
  \<comment> \<open>lines 141, 155, 370, 503: authentication failed\<close>
  "msg_auth_failed =
       [CHR 0xEC, CHR 0x9D, CHR 0xB8, CHR 0xEC, CHR 0xA6, CHR 0x9D]
     @ '' ''
     @ [CHR 0xEC, CHR 0x8B, CHR 0xA4, CHR 0xED, CHR 0x8C, CHR 0xA8]
     @ '': ''"

definition msg_no_token :: string where
  \<comment> \<open>line 146: no authentication token was received\<close>
  "msg_no_token =
       [CHR 0xEC, CHR 0x9D, CHR 0xB8, CHR 0xEC, CHR 0xA6, CHR 0x9D]
     @ '' ''
     @ [CHR 0xED, CHR 0x86, CHR 0xA0, CHR 0xED, CHR 0x81, CHR 0xB0, CHR 0xEC, CHR 0x9D, CHR 0x84]
     @ '' ''
     @ [CHR 0xEB, CHR 0xB0, CHR 0x9B, CHR 0xEC, CHR 0xA7, CHR 0x80]
     @ '' ''
     @ [CHR 0xEB, CHR 0xAA, CHR 0xBB, CHR 0xED, CHR 0x96, CHR 0x88, CHR 0xEC, CHR 0x8A, CHR 0xB5, CHR 0xEB, CHR 0x8B, CHR 0x88, CHR 0xEB, CHR 0x8B, CHR 0xA4]"

definition msg_vm_list_failed :: string where
  \<comment> \<open>lines 170, 180, 331, 336: querying the VM list failed\<close>
  "msg_vm_list_failed =
       ''VM ''
     @ [CHR 0xEB, CHR 0xAA, CHR 0xA9, CHR 0xEB, CHR 0xA1, CHR 0x9D]
     @ '' ''
     @ [CHR 0xEC, CHR 0xA1, CHR 0xB0, CHR 0xED, CHR 0x9A, CHR 0x8C]
     @ '' ''
     @ [CHR 0xEC, CHR 0x8B, CHR 0xA4, CHR 0xED, CHR 0x8C, CHR 0xA8]
     @ '': ''"

definition msg_response_part :: string where
  \<comment> \<open>line 180: the response\<close>
  "msg_response_part =
       '', ''
     @ [CHR 0xEC, CHR 0x9D, CHR 0x91, CHR 0xEB, CHR 0x8B, CHR 0xB5]
     @ '': ''"

definition msg_read_failed :: string where
  \<comment> \<open>lines 176, 266, 341, 451: reading the response failed\<close>
  "msg_read_failed =
       [CHR 0xEC, CHR 0x9D, CHR 0x91, CHR 0xEB, CHR 0x8B, CHR 0xB5]
     @ '' ''
     @ [CHR 0xEC, CHR 0x9D, CHR 0xBD, CHR 0xEA, CHR 0xB8, CHR 0xB0]
     @ '' ''
     @ [CHR 0xEC, CHR 0x8B, CHR 0xA4, CHR 0xED, CHR 0x8C, CHR 0xA8]
     @ '': ''"

definition msg_parse_failed :: string where
  \<comment> \<open>lines 204, 289, 347, 459, 528: parsing the response failed\<close>
  "msg_parse_failed =
       [CHR 0xEC, CHR 0x9D, CHR 0x91, CHR 0xEB, CHR 0x8B, CHR 0xB5]
     @ '' ''
     @ [CHR 0xED, CHR 0x8C, CHR 0x8C, CHR 0xEC, CHR 0x8B, CHR 0xB1]
     @ '' ''
     @ [CHR 0xEC, CHR 0x8B, CHR 0xA4, CHR 0xED, CHR 0x8C, CHR 0xA8]
     @ '': ''"

definition msg_response_content_part :: string where
  \<comment> \<open>line 204: the response content\<close>
  "msg_response_content_part =
       '', ''
     @ [CHR 0xEC, CHR 0x9D, CHR 0x91, CHR 0xEB, CHR 0x8B, CHR 0xB5]
     @ '' ''
     @ [CHR 0xEB, CHR 0x82, CHR 0xB4, CHR 0xEC, CHR 0x9A, CHR 0xA9]
     @ '': ''"

definition msg_instance_id_unset :: string where
  \<comment> \<open>line 243: the VM instance ID is not set\<close>
  "msg_instance_id_unset =
       ''VM ''
     @ [CHR 0xEC, CHR 0x9D, CHR 0xB8, CHR 0xEC, CHR 0x8A, CHR 0xA4, CHR 0xED, CHR 0x84, CHR 0xB4, CHR 0xEC, CHR 0x8A, CHR 0xA4]
     @ '' ID''
     @ [CHR 0xEA, CHR 0xB0, CHR 0x80]
     @ '' ''
     @ [CHR 0xEC, CHR 0x84, CHR 0xA4, CHR 0xEC, CHR 0xA0, CHR 0x95, CHR 0xEB, CHR 0x90, CHR 0x98, CHR 0xEC, CHR 0xA7, CHR 0x80]
     @ '' ''
     @ [CHR 0xEC, CHR 0x95, CHR 0x8A, CHR 0xEC, CHR 0x95, CHR 0x98, CHR 0xEC, CHR 0x8A, CHR 0xB5, CHR 0xEB, CHR 0x8B, CHR 0x88, CHR 0xEB, CHR 0x8B, CHR 0xA4]"

definition msg_vm_info_failed :: string where
  \<comment> \<open>lines 256, 261: querying the VM information failed\<close>
  "msg_vm_info_failed =
       ''VM ''
     @ [CHR 0xEC, CHR 0xA0, CHR 0x95, CHR 0xEB, CHR 0xB3, CHR 0xB4]
     @ '' ''
     @ [CHR 0xEC, CHR 0xA1, CHR 0xB0, CHR 0xED, CHR 0x9A, CHR 0x8C]
     @ '' ''
     @ [CHR 0xEC, CHR 0x8B, CHR 0xA4, CHR 0xED, CHR 0x8C, CHR 0xA8]
     @ '': ''"

definition msg_vm_lookup_failed :: string where
  \<comment> \<open>line 381: querying the VM failed\<close>
  "msg_vm_lookup_failed =
       ''VM ''
     @ [CHR 0xEC, CHR 0xA1, CHR 0xB0, CHR 0xED, CHR 0x9A, CHR 0x8C]
     @ '' ''
     @ [CHR 0xEC, CHR 0x8B, CHR 0xA4, CHR 0xED, CHR 0x8C, CHR 0xA8]
     @ '': ''"

definition msg_vm_running :: string where
  \<comment> \<open>line 389: the VM is operating normally\<close>
  "msg_vm_running =
       ''VM''
     @ [CHR 0xEC, CHR 0x9D, CHR 0xB4]
     @ '' ''
     @ [CHR 0xEC, CHR 0xA0, CHR 0x95, CHR 0xEC, CHR 0x83, CHR 0x81, CHR 0xEC, CHR 0xA0, CHR 0x81, CHR 0xEC, CHR 0x9C, CHR 0xBC, CHR 0xEB, CHR 0xA1, CHR 0x9C]
     @ '' ''
     @ [CHR 0xEB, CHR 0x8F, CHR 0x99, CHR 0xEC, CHR 0x9E, CHR 0x91]
     @ '' ''
     @ [CHR 0xEC, CHR 0xA4, CHR 0x91, CHR 0xEC, CHR 0x9E, CHR 0x85, CHR 0xEB, CHR 0x8B, CHR 0x88, CHR 0xEB, CHR 0x8B, CHR 0xA4]"

definition msg_vm_abnormal :: string where
  \<comment> \<open>line 392: the VM state is abnormal\<close>
  "msg_vm_abnormal =
       ''VM ''
     @ [CHR 0xEC, CHR 0x83, CHR 0x81, CHR 0xED, CHR 0x83, CHR 0x9C, CHR 0xEA, CHR 0xB0, CHR 0x80]
     @ '' ''
     @ [CHR 0xEB, CHR 0xB9, CHR 0x84, CHR 0xEC, CHR 0xA0, CHR 0x95, CHR 0xEC, CHR 0x83, CHR 0x81, CHR 0xEC, CHR 0x9E, CHR 0x85, CHR 0xEB, CHR 0x8B, CHR 0x88, CHR 0xEB, CHR 0x8B, CHR 0xA4]
     @ '': ''"

definition msg_flavor_failed :: string where
  \<comment> \<open>lines 441, 446: querying the flavor information failed\<close>
  "msg_flavor_failed =
       ''Flavor ''
     @ [CHR 0xEC, CHR 0xA0, CHR 0x95, CHR 0xEB, CHR 0xB3, CHR 0xB4]
     @ '' ''
     @ [CHR 0xEC, CHR 0xA1, CHR 0xB0, CHR 0xED, CHR 0x9A, CHR 0x8C]
     @ '' ''
     @ [CHR 0xEC, CHR 0x8B, CHR 0xA4, CHR 0xED, CHR 0x8C, CHR 0xA8]
     @ '': ''"

definition msg_vm_status_failed :: string where
  \<comment> \<open>line 515: querying the VM state failed\<close>
  "msg_vm_status_failed =
       ''VM ''
     @ [CHR 0xEC, CHR 0x83, CHR 0x81, CHR 0xED, CHR 0x83, CHR 0x9C]
     @ '' ''
     @ [CHR 0xEC, CHR 0xA1, CHR 0xB0, CHR 0xED, CHR 0x9A, CHR 0x8C]
     @ '' ''
     @ [CHR 0xEC, CHR 0x8B, CHR 0xA4, CHR 0xED, CHR 0x8C, CHR 0xA8]
     @ '': ''"

subsection \<open>Data model\<close>

text \<open>
  Modelled from the spec: the package \<open>models\<close> is not among the sources; \<open>Participant\<close>
  and \<open>VirtualMachine\<close> carry the fields this file reads (spec section 3, Credential:
  endpoint URL, application-credential ID and secret).
\<close>

record Participant =
  OpenStackEndpoint :: string
  OpenStackApplicationCredentialID :: string
  OpenStackApplicationCredentialSecret :: string

record VirtualMachine =
  InstanceID :: string

text \<open>The structs declared in the file (lines 27-88). Go's \<open>int\<close> fields are only stored.\<close>

record ApplicationCredential =
  AC_ID :: string
  AC_Secret :: string

record AuthRequest =
  Methods :: "string list"
  ApplicationCredential :: "ApplicationCredential option"

record FlavorDetails =
  F_ID :: string
  F_Name :: string
  VCPUs :: int
  RAM :: int
  Disk :: int

record Address =
  Addr :: string
  IPType :: string

record VMInstance =
  ID :: string
  Name :: string
  Status :: string
  Flavor :: FlavorDetails
  Addresses :: "string \<rightharpoonup> Address list"
  PowerState :: int
  AvailabilityZone :: string
  Created :: string
  Updated :: string

text \<open>
  The anonymous struct that \<open>GetAllVMInstances\<close> (lines 185-200) and \<open>GetVMInstance\<close>
  (lines 270-285) decode one server into; its flavor is only an id.
\<close>

record Server =
  S_ID :: string
  S_Name :: string
  S_Status :: string
  S_FlavorID :: string
  S_Addresses :: "string \<rightharpoonup> Address list"
  S_PowerState :: int
  S_AvailabilityZone :: string
  S_Created :: string
  S_Updated :: string

record VMHealthCheckResult =
  Healthy :: bool
  H_Status :: string
  Message :: string
  CheckedAt :: int
  ResponseTime :: int

text \<open>
  Modelled from the spec: \<open>models.VMMonitoringInfo\<close> and \<open>models.VMRuntimeInfo\<close> are
  declared outside the sources; they carry the fields that lines 531-536 and 543-551 set
  (spec section 4.5), with the types of the file's own struct of lines 70-79. The
  \<open>float64\<close> fields hold literals only and no arithmetic is done on them, so they are
  the rationals the literals denote.
\<close>

record VMMonitoringInfo =
  M_InstanceID :: string
  CPUUsage :: rat
  MemoryUsage :: rat
  DiskUsage :: rat
  NetworkInBytes :: int
  NetworkOutBytes :: int
  LastUpdated :: int

record VMRuntimeInfo =
  R_InstanceID :: string
  R_Status :: string
  R_PowerState :: int
  LastChecked :: int

subsection \<open>The libraries\<close>

text \<open>
  \<open>http.Header\<close> is a map from canonical keys to value lists. Every key this file uses
  is already in canonical form, so \<open>Set\<close> and \<open>Get\<close> use it as it is.
\<close>

type_synonym header = "string \<rightharpoonup> string list"

definition Header_Set :: "header \<Rightarrow> string \<Rightarrow> string \<Rightarrow> header" where
  "Header_Set h k v = h(k \<mapsto> [v])"

definition Header_Get :: "header \<Rightarrow> string \<Rightarrow> string" where
  "Header_Get h k = (case h k of None \<Rightarrow> [] | Some [] \<Rightarrow> [] | Some (v # vs) \<Rightarrow> v)"

text \<open>
  A request as the file builds it. The body is the value handed to \<open>json.Marshal\<close>
  (line 121), which cannot fail on a struct of strings, so line 123 is never reached.
\<close>

record request =
  Method :: string
  URL :: string
  ReqHeader :: header
  ReqBody :: "AuthRequest option"

text \<open>
  A response: \<open>Body\<close> is the bytes \<open>io.ReadAll\<close> returns and \<open>BodyErr\<close> its error.
\<close>

record response =
  StatusCode :: int
  RespHeader :: header
  Body :: string
  BodyErr :: "string option"

datatype event = HttpNewRequest string string | ClientDo request | TimeNow

text \<open>
  What the world outside answers. \<open>newRequestErr\<close> is the error of \<open>http.NewRequest\<close>
  for a method and a URL; \<open>clientDo\<close> is \<open>s.client.Do\<close>, which may depend on everything
  that happened before; \<open>timeNow\<close> is the clock in nanoseconds; the five decoders are
  \<open>json.Unmarshal\<close> at the five target types of lines 203, 288, 346, 458 and 527.
\<close>

record env =
  newRequestErr :: "string \<Rightarrow> string \<Rightarrow> string option"
  clientDo :: "event list \<Rightarrow> request \<Rightarrow> string + response"
  timeNow :: "event list \<Rightarrow> int"
  unmarshalServers :: "string \<Rightarrow> string + Server list"
  unmarshalServer :: "string \<Rightarrow> string + Server"
  unmarshalVMList :: "string \<Rightarrow> string + VMInstance list"
  unmarshalFlavor :: "string \<Rightarrow> string + FlavorDetails"
  unmarshalRuntime :: "string \<Rightarrow> string + string \<times> int"

definition http_NewRequest ::
  "env \<Rightarrow> string \<Rightarrow> string \<Rightarrow> AuthRequest option \<Rightarrow> event list \<Rightarrow> (string + request) \<times> event list" where
  "http_NewRequest env method url body tr =
     (case newRequestErr env method url of
        Some e \<Rightarrow> Inl e
      | None \<Rightarrow> Inr \<lparr>Method = method, URL = url, ReqHeader = Map.empty, ReqBody = body\<rparr>,
      tr @ [HttpNewRequest method url])"

definition client_Do :: "env \<Rightarrow> request \<Rightarrow> event list \<Rightarrow> (string + response) \<times> event list" where
  "client_Do env req tr = (clientDo env tr req, tr @ [ClientDo req])"

definition time_Now :: "env \<Rightarrow> event list \<Rightarrow> int \<times> event list" where
  "time_Now env tr = (timeNow env tr, tr @ [TimeNow])"

definition setHeader :: "request \<Rightarrow> string \<Rightarrow> string \<Rightarrow> request" where
  "setHeader req k v = req\<lparr>ReqHeader := Header_Set (ReqHeader req) k v\<rparr>"

subsection \<open>GetAuthToken (lines 103-150)\<close>

definition GetAuthToken :: "env \<Rightarrow> Participant \<Rightarrow> event list \<Rightarrow> (string + string) \<times> event list" where
  "GetAuthToken env participant tr =
     (if OpenStackApplicationCredentialID participant \<noteq> []
         \<and> OpenStackApplicationCredentialSecret participant \<noteq> []
      then
        (let authReq = \<lparr>Methods = [''application_credential''],
                        ApplicationCredential = Some
                          \<lparr>AC_ID = OpenStackApplicationCredentialID participant,
                           AC_Secret = OpenStackApplicationCredentialSecret participant\<rparr>\<rparr>;
             url = OpenStackEndpoint participant @ ''/identity/v3/auth/tokens''
         in (case http_NewRequest env ''POST'' url (Some authReq) tr of
               (Inl err, tr1) \<Rightarrow> (Inl (msg_new_request_failed @ err), tr1)
             | (Inr req0, tr1) \<Rightarrow>
                 (let req = setHeader req0 ''Content-Type'' ''application/json''
                  in (case client_Do env req tr1 of
                        (Inl err, tr2) \<Rightarrow> (Inl (msg_auth_request_failed @ err), tr2)
                      | (Inr resp, tr2) \<Rightarrow>
                          (if StatusCode resp \<noteq> 201
                           then (Inl (msg_auth_failed @ ''HTTP '' @ fmt_d (StatusCode resp)), tr2)
                           else
                             (let token = Header_Get (RespHeader resp) ''X-Subject-Token''
                              in (if token = [] then (Inl msg_no_token, tr2)
                                  else (Inr token, tr2))))))))
      else (Inl msg_credential_required, tr))"

subsection \<open>GetFlavorDetails (lines 429-463)\<close>

definition GetFlavorDetails ::
  "env \<Rightarrow> Participant \<Rightarrow> string \<Rightarrow> string \<Rightarrow> event list \<Rightarrow> (string + FlavorDetails) \<times> event list" where
  "GetFlavorDetails env participant token flavorID tr =
     (let url = OpenStackEndpoint participant @ ''/compute/v2.1/flavors/'' @ flavorID
      in (case http_NewRequest env ''GET'' url None tr of
            (Inl err, tr1) \<Rightarrow> (Inl (msg_new_request_failed @ err), tr1)
          | (Inr req0, tr1) \<Rightarrow>
              (let req = setHeader (setHeader req0 ''X-Auth-Token'' token)
                           ''Accept'' ''application/json''
               in (case client_Do env req tr1 of
                     (Inl err, tr2) \<Rightarrow> (Inl (msg_flavor_failed @ err), tr2)
                   | (Inr resp, tr2) \<Rightarrow>
                       (if StatusCode resp \<noteq> 200
                        then (Inl (msg_flavor_failed @ ''HTTP '' @ fmt_d (StatusCode resp)), tr2)
                        else
                          (case BodyErr resp of
                             Some err \<Rightarrow> (Inl (msg_read_failed @ err), tr2)
                           | None \<Rightarrow>
                               (case unmarshalFlavor env (Body resp) of
                                  Inl err \<Rightarrow> (Inl (msg_parse_failed @ err), tr2)
                                | Inr flavor \<Rightarrow> (Inr flavor, tr2))))))))"

subsection \<open>GetAllVMInstances (lines 152-237)\<close>

text \<open>
  The placeholder of lines 213-219 and 296-302, and the descriptor of lines 222-231 and
  305-314. The composite literal names eight of the nine fields of \<open>VMInstance\<close>;
  \<open>AvailabilityZone\<close> is not among them and keeps Go's zero value, the empty string.
\<close>

definition unknownFlavor :: "string \<Rightarrow> FlavorDetails" where
  "unknownFlavor flavorID =
     \<lparr>F_ID = flavorID, F_Name = ''Unknown'', VCPUs = 0, RAM = 0, Disk = 0\<rparr>"

definition mkVMInstance :: "Server \<Rightarrow> FlavorDetails \<Rightarrow> VMInstance" where
  "mkVMInstance server flavorDetails =
     \<lparr>ID = S_ID server,
      Name = S_Name server,
      Status = S_Status server,
      Flavor = flavorDetails,
      Addresses = S_Addresses server,
      PowerState = S_PowerState server,
      AvailabilityZone = [],
      Created = S_Created server,
      Updated = S_Updated server\<rparr>"

text \<open>The loop of lines 208-234; \<open>vmInstances\<close> is the slice appended to.\<close>

fun enrichServers ::
  "env \<Rightarrow> Participant \<Rightarrow> string \<Rightarrow> Server list \<Rightarrow> VMInstance list \<Rightarrow> event list
     \<Rightarrow> VMInstance list \<times> event list" where
  "enrichServers env participant token [] vmInstances tr = (vmInstances, tr)"
| "enrichServers env participant token (server # servers) vmInstances tr =
     (case GetFlavorDetails env participant token (S_FlavorID server) tr of
        (r, tr1) \<Rightarrow>
          (let flavorDetails =
                 (case r of Inl err \<Rightarrow> unknownFlavor (S_FlavorID server) | Inr f \<Rightarrow> f);
               vmInstance = mkVMInstance server flavorDetails
           in enrichServers env participant token servers (vmInstances @ [vmInstance]) tr1))"

definition GetAllVMInstances ::
  "env \<Rightarrow> Participant \<Rightarrow> event list \<Rightarrow> (string + VMInstance list) \<times> event list" where
  "GetAllVMInstances env participant tr =
     (case GetAuthToken env participant tr of
        (Inl err, tr0) \<Rightarrow> (Inl (msg_auth_failed @ err), tr0)
      | (Inr token, tr0) \<Rightarrow>
          (let url = OpenStackEndpoint participant @ ''/compute/v2.1/servers/detail''
           in (case http_NewRequest env ''GET'' url None tr0 of
                 (Inl err, tr1) \<Rightarrow> (Inl (msg_new_request_failed @ err), tr1)
               | (Inr req0, tr1) \<Rightarrow>
                   (let req = setHeader (setHeader req0 ''X-Auth-Token'' token)
                                ''Accept'' ''application/json''
                    in (case client_Do env req tr1 of
                          (Inl err, tr2) \<Rightarrow> (Inl (msg_vm_list_failed @ err), tr2)
                        | (Inr resp, tr2) \<Rightarrow>
                            (case BodyErr resp of
                               Some err \<Rightarrow> (Inl (msg_read_failed @ err), tr2)
                             | None \<Rightarrow>
                                 (if StatusCode resp \<noteq> 200
                                  then (Inl (msg_vm_list_failed @ ''HTTP ''
                                              @ fmt_d (StatusCode resp)
                                              @ msg_response_part @ Body resp), tr2)
                                  else
                                    (case unmarshalServers env (Body resp) of
                                       Inl err \<Rightarrow>
                                         (Inl (msg_parse_failed @ err
                                                @ msg_response_content_part @ Body resp), tr2)
                                     | Inr servers \<Rightarrow>
                                         (case enrichServers env participant token servers [] tr2 of
                                            (vmInstances, tr3) \<Rightarrow> (Inr vmInstances, tr3))))))))))"

subsection \<open>GetVMInstance (lines 241-317)\<close>

definition GetVMInstance ::
  "env \<Rightarrow> VirtualMachine \<Rightarrow> Participant \<Rightarrow> string \<Rightarrow> event list
     \<Rightarrow> (string + VMInstance) \<times> event list" where
  "GetVMInstance env vm participant token tr =
     (if InstanceID vm = [] then (Inl msg_instance_id_unset, tr)
      else
        (let url = OpenStackEndpoint participant @ ''/compute/v2.1/servers/'' @ InstanceID vm
         in (case http_NewRequest env ''GET'' url None tr of
               (Inl err, tr1) \<Rightarrow> (Inl (msg_new_request_failed @ err), tr1)
             | (Inr req0, tr1) \<Rightarrow>
                 (let req = setHeader req0 ''X-Auth-Token'' token
                  in (case client_Do env req tr1 of
                        (Inl err, tr2) \<Rightarrow> (Inl (msg_vm_info_failed @ err), tr2)
                      | (Inr resp, tr2) \<Rightarrow>
                          (if StatusCode resp \<noteq> 200
                           then (Inl (msg_vm_info_failed @ ''HTTP '' @ fmt_d (StatusCode resp)), tr2)
                           else
                             (case BodyErr resp of
                                Some err \<Rightarrow> (Inl (msg_read_failed @ err), tr2)
                              | None \<Rightarrow>
                                  (case unmarshalServer env (Body resp) of
                                     Inl err \<Rightarrow> (Inl (msg_parse_failed @ err), tr2)
                                   | Inr server \<Rightarrow>
                                       (case GetFlavorDetails env participant token
                                               (S_FlavorID server) tr2 of
                                          (r, tr3) \<Rightarrow>
                                            (let flavorDetails =
                                                   (case r of
                                                      Inl err \<Rightarrow> unknownFlavor (S_FlavorID server)
                                                    | Inr f \<Rightarrow> f)
                                             in (Inr (mkVMInstance server flavorDetails), tr3)))))))))))"

subsection \<open>ListVMInstances (lines 320-351)\<close>

definition ListVMInstances ::
  "env \<Rightarrow> Participant \<Rightarrow> string \<Rightarrow> event list \<Rightarrow> (string + VMInstance list) \<times> event list" where
  "ListVMInstances env participant token tr =
     (let url = OpenStackEndpoint participant @ ''/v2.1/servers/detail''
      in (case http_NewRequest env ''GET'' url None tr of
            (Inl err, tr1) \<Rightarrow> (Inl (msg_new_request_failed @ err), tr1)
          | (Inr req0, tr1) \<Rightarrow>
              (let req = setHeader req0 ''X-Auth-Token'' token
               in (case client_Do env req tr1 of
                     (Inl err, tr2) \<Rightarrow> (Inl (msg_vm_list_failed @ err), tr2)
                   | (Inr resp, tr2) \<Rightarrow>
                       (if StatusCode resp \<noteq> 200
                        then (Inl (msg_vm_list_failed @ ''HTTP '' @ fmt_d (StatusCode resp)), tr2)
                        else
                          (case BodyErr resp of
                             Some err \<Rightarrow> (Inl (msg_read_failed @ err), tr2)
                           | None \<Rightarrow>
                               (case unmarshalVMList env (Body resp) of
                                  Inl err \<Rightarrow> (Inl (msg_parse_failed @ err), tr2)
                                | Inr servers \<Rightarrow> (Inr servers, tr2))))))))"

subsection \<open>HealthCheckSpecificVM (lines 362-402)\<close>

text \<open>
  \<open>time.Since(t).Milliseconds()\<close>: the nanoseconds since \<open>t\<close>, divided by a million with
  Go's integer division, which truncates towards zero.
\<close>

definition Milliseconds :: "int \<Rightarrow> int" where
  "Milliseconds d = (if d < 0 then - ((- d) div 1000000) else d div 1000000)"

text \<open>
  The literal of lines 367-373, 378-384 and 395-401: after the message has been
  formatted, \<open>CheckedAt\<close> reads the clock and \<open>time.Since\<close> reads it again, in the order
  the fields are written.
\<close>

definition healthResult ::
  "env \<Rightarrow> int \<Rightarrow> bool \<Rightarrow> string \<Rightarrow> string \<Rightarrow> event list
     \<Rightarrow> (string + VMHealthCheckResult) \<times> event list" where
  "healthResult env startTime healthy status message tr =
     (case time_Now env tr of
        (checkedAt, tr1) \<Rightarrow>
          (case time_Now env tr1 of
             (now, tr2) \<Rightarrow>
               (Inr \<lparr>Healthy = healthy, H_Status = status, Message = message,
                     CheckedAt = checkedAt,
                     ResponseTime = Milliseconds (now - startTime)\<rparr>, tr2)))"

definition HealthCheckSpecificVM ::
  "env \<Rightarrow> Participant \<Rightarrow> VirtualMachine \<Rightarrow> event list
     \<Rightarrow> (string + VMHealthCheckResult) \<times> event list" where
  "HealthCheckSpecificVM env participant vm tr =
     (case time_Now env tr of
        (startTime, tr0) \<Rightarrow>
          (case GetAuthToken env participant tr0 of
             (Inl err, tr1) \<Rightarrow>
               healthResult env startTime False ''ERROR'' (msg_auth_failed @ err) tr1
           | (Inr token, tr1) \<Rightarrow>
               (case GetVMInstance env vm participant token tr1 of
                  (Inl err, tr2) \<Rightarrow>
                    healthResult env startTime False ''ERROR'' (msg_vm_lookup_failed @ err) tr2
                | (Inr instance, tr2) \<Rightarrow>
                    (let healthy = (Status instance = ''ACTIVE'');
                         status = Status instance;
                         message = (if \<not> healthy then msg_vm_abnormal @ Status instance
                                    else msg_vm_running)
                     in healthResult env startTime healthy status message tr2))))"

subsection \<open>GetVMRuntimeStatus (lines 500-537)\<close>

definition GetVMRuntimeStatus ::
  "env \<Rightarrow> Participant \<Rightarrow> string \<Rightarrow> event list \<Rightarrow> (string + VMRuntimeInfo) \<times> event list" where
  "GetVMRuntimeStatus env participant instanceID tr =
     (case GetAuthToken env participant tr of
        (Inl err, tr0) \<Rightarrow> (Inl (msg_auth_failed @ err), tr0)
      | (Inr token, tr0) \<Rightarrow>
          (let url = OpenStackEndpoint participant @ ''/compute/v2.1/servers/'' @ instanceID
           in (case http_NewRequest env ''GET'' url None tr0 of
                 (Inl err, tr1) \<Rightarrow> (Inl (msg_new_request_failed @ err), tr1)
               | (Inr req0, tr1) \<Rightarrow>
                   (let req = setHeader req0 ''X-Auth-Token'' token
                    in (case client_Do env req tr1 of
                          (Inl err, tr2) \<Rightarrow> (Inl (msg_vm_status_failed @ err), tr2)
                        | (Inr resp, tr2) \<Rightarrow>
                            (case unmarshalRuntime env (Body resp) of
                               Inl err \<Rightarrow> (Inl (msg_parse_failed @ err), tr2)
                             | Inr (status, powerState) \<Rightarrow>
                                 (case time_Now env tr2 of
                                    (now, tr3) \<Rightarrow>
                                      (Inr \<lparr>R_InstanceID = instanceID, R_Status = status,
                                            R_PowerState = powerState, LastChecked = now\<rparr>,
                                       tr3))))))))"

subsection \<open>GetVMMonitoringInfo (lines 540-552)\<close>

definition GetVMMonitoringInfo ::
  "env \<Rightarrow> string \<Rightarrow> event list \<Rightarrow> (string + VMMonitoringInfo) \<times> event list" where
  "GetVMMonitoringInfo env instanceID tr =
     (case time_Now env tr of
        (now, tr1) \<Rightarrow>
          (Inr \<lparr>M_InstanceID = instanceID,
                CPUUsage = 75.5,
                MemoryUsage = 82.3,
                DiskUsage = 45.8,
                NetworkInBytes = 1024000,
                NetworkOutBytes = 2048000,
                LastUpdated = now\<rparr>, tr1))"

subsection \<open>A sample cloud\<close>

text \<open>
  A concrete environment on which the functions can be run: one participant, an identity
  service that issues the token \<open>abc\<close>, two servers and one flavor. Server \<open>vm-2\<close>
  names a flavor \<open>f2\<close> that the cloud does not know. The bodies are JSON texts; the
  decoders list what \<open>json.Unmarshal\<close> makes of each of them (a member the target
  struct does not name is skipped, so an object without the expected member leaves the
  target at its zero value; the empty body is a syntax error).
\<close>

definition demo_vm1_json :: string where
  \<open>demo_vm1_json =
       ''{"id":"vm-1","name":"alpha","status":"ACTIVE","flavor":{"id":"f1"},''
     @ ''"addresses":{"private":[{"addr":"10.0.0.5",''
     @ ''"OS-EXT-IPS:type":"fixed"}]},"OS-EXT-STS:power_state":1,''
     @ ''"OS-EXT-AZ:availability_zone":"nova","created":"2025-01-01T00:00:00Z",''
     @ ''"updated":"2025-01-02T00:00:00Z"}''\<close>

definition demo_vm2_json :: string where
  \<open>demo_vm2_json =
       ''{"id":"vm-2","name":"beta","status":"SHUTOFF","flavor":{"id":"f2"},''
     @ ''"addresses":{},"OS-EXT-STS:power_state":4,''
     @ ''"OS-EXT-AZ:availability_zone":"nova","created":"2025-02-01T00:00:00Z",''
     @ ''"updated":"2025-02-02T00:00:00Z"}''\<close>

definition demo_flavor1_json :: string where
  \<open>demo_flavor1_json =
       ''{"flavor":{"id":"f1","name":"m1.small","vcpus":1,"ram":2048,''
     @ ''"disk":20}}''\<close>

definition demo_notfound_json :: string where
  \<open>demo_notfound_json =
       ''{"itemNotFound":{"code":404,''
     @ ''"message":"The resource could not be found."}}''\<close>

definition demo_unauthorized_json :: string where
  \<open>demo_unauthorized_json =
       ''{"error":{"code":401,"title":"Unauthorized",''
     @ ''"message":"The request you have made requires authentication."}}''\<close>

definition demo_servers_json :: string where
  \<open>demo_servers_json = ''{"servers":['' @ demo_vm1_json @ '','' @ demo_vm2_json @ '']}''\<close>

definition demo_server1_json :: string where
  \<open>demo_server1_json = ''{"server":'' @ demo_vm1_json @ ''}''\<close>

definition demo_server2_json :: string where
  \<open>demo_server2_json = ''{"server":'' @ demo_vm2_json @ ''}''\<close>

definition demo_vm1 :: Server where
  "demo_vm1 =
     \<lparr>S_ID = ''vm-1'', S_Name = ''alpha'', S_Status = ''ACTIVE'', S_FlavorID = ''f1'',
      S_Addresses = [''private'' \<mapsto> [\<lparr>Addr = ''10.0.0.5'', IPType = ''fixed''\<rparr>]],
      S_PowerState = 1, S_AvailabilityZone = ''nova'',
      S_Created = ''2025-01-01T00:00:00Z'', S_Updated = ''2025-01-02T00:00:00Z''\<rparr>"

definition demo_vm2 :: Server where
  "demo_vm2 =
     \<lparr>S_ID = ''vm-2'', S_Name = ''beta'', S_Status = ''SHUTOFF'', S_FlavorID = ''f2'',
      S_Addresses = Map.empty,
      S_PowerState = 4, S_AvailabilityZone = ''nova'',
      S_Created = ''2025-02-01T00:00:00Z'', S_Updated = ''2025-02-02T00:00:00Z''\<rparr>"

definition demo_flavor1 :: FlavorDetails where
  "demo_flavor1 = \<lparr>F_ID = ''f1'', F_Name = ''m1.small'', VCPUs = 1, RAM = 2048, Disk = 20\<rparr>"

definition zeroFlavor :: FlavorDetails where
  "zeroFlavor = \<lparr>F_ID = [], F_Name = [], VCPUs = 0, RAM = 0, Disk = 0\<rparr>"

definition zeroServer :: Server where
  "zeroServer =
     \<lparr>S_ID = [], S_Name = [], S_Status = [], S_FlavorID = [], S_Addresses = Map.empty,
      S_PowerState = 0, S_AvailabilityZone = [], S_Created = [], S_Updated = []\<rparr>"

definition demo_syntax_error :: string where
  "demo_syntax_error = ''unexpected end of JSON input''"

definition demo_unmarshalServers :: "string \<Rightarrow> string + Server list" where
  "demo_unmarshalServers body =
     (if body = demo_servers_json then Inr [demo_vm1, demo_vm2]
      else if body = [] then Inl demo_syntax_error
      else Inr [])"

definition demo_unmarshalServer :: "string \<Rightarrow> string + Server" where
  "demo_unmarshalServer body =
     (if body = demo_server1_json then Inr demo_vm1
      else if body = demo_server2_json then Inr demo_vm2
      else if body = [] then Inl demo_syntax_error
      else Inr zeroServer)"

text \<open>
  \<open>ListVMInstances\<close> decodes a server straight into \<open>VMInstance\<close>, whose flavor then
  has only the id the server object carries.
\<close>

definition demo_direct :: "Server \<Rightarrow> VMInstance" where
  "demo_direct s =
     \<lparr>ID = S_ID s, Name = S_Name s, Status = S_Status s,
      Flavor = zeroFlavor\<lparr>F_ID := S_FlavorID s\<rparr>,
      Addresses = S_Addresses s, PowerState = S_PowerState s,
      AvailabilityZone = S_AvailabilityZone s,
      Created = S_Created s, Updated = S_Updated s\<rparr>"

definition demo_unmarshalVMList :: "string \<Rightarrow> string + VMInstance list" where
  "demo_unmarshalVMList body =
     (if body = demo_servers_json then Inr [demo_direct demo_vm1, demo_direct demo_vm2]
      else if body = [] then Inl demo_syntax_error
      else Inr [])"

definition demo_unmarshalFlavor :: "string \<Rightarrow> string + FlavorDetails" where
  "demo_unmarshalFlavor body =
     (if body = demo_flavor1_json then Inr demo_flavor1
      else if body = [] then Inl demo_syntax_error
      else Inr zeroFlavor)"

definition demo_unmarshalRuntime :: "string \<Rightarrow> string + string \<times> int" where
  "demo_unmarshalRuntime body =
     (if body = demo_server1_json then Inr (''ACTIVE'', 1)
      else if body = demo_server2_json then Inr (''SHUTOFF'', 4)
      else if body = [] then Inl demo_syntax_error
      else Inr ([], 0))"

definition demo_response :: "int \<Rightarrow> string \<Rightarrow> response" where
  "demo_response code body =
     \<lparr>StatusCode = code, RespHeader = [''Content-Type'' \<mapsto> [''application/json'']],
      Body = body, BodyErr = None\<rparr>"

definition demo_participant :: Participant where
  "demo_participant =
     \<lparr>OpenStackEndpoint = ''http://cloud'',
      OpenStackApplicationCredentialID = ''app-id'',
      OpenStackApplicationCredentialSecret = ''app-secret''\<rparr>"

definition demo_authReq :: AuthRequest where
  "demo_authReq =
     \<lparr>Methods = [''application_credential''],
      ApplicationCredential = Some \<lparr>AC_ID = ''app-id'', AC_Secret = ''app-secret''\<rparr>\<rparr>"

definition demo_clientDo :: "event list \<Rightarrow> request \<Rightarrow> string + response" where
  "demo_clientDo tr req =
     (if take 13 (URL req) \<noteq> ''http://cloud/'' then Inl ''dial tcp: connection refused''
      else if Method req = ''POST'' \<and> URL req = ''http://cloud/identity/v3/auth/tokens'' then
        (if ReqBody req = Some demo_authReq
         then Inr \<lparr>StatusCode = 201, RespHeader = [''X-Subject-Token'' \<mapsto> [''abc'']],
                   Body = [], BodyErr = None\<rparr>
         else Inr (demo_response 401 demo_unauthorized_json))
      else if ReqHeader req ''X-Auth-Token'' \<noteq> Some [''abc''] then
        Inr (demo_response 401 demo_unauthorized_json)
      else if Method req = ''GET'' \<and> URL req = ''http://cloud/compute/v2.1/servers/detail'' then
        Inr (demo_response 200 demo_servers_json)
      else if Method req = ''GET'' \<and> URL req = ''http://cloud/compute/v2.1/servers/vm-1'' then
        Inr (demo_response 200 demo_server1_json)
      else if Method req = ''GET'' \<and> URL req = ''http://cloud/compute/v2.1/servers/vm-2'' then
        Inr (demo_response 200 demo_server2_json)
      else if Method req = ''GET'' \<and> URL req = ''http://cloud/compute/v2.1/flavors/f1'' then
        Inr (demo_response 200 demo_flavor1_json)
      else Inr (demo_response 404 demo_notfound_json))"

text \<open>The clock: every library call so far has taken a millisecond and a half.\<close>

definition demo_env :: env where
  "demo_env =
     \<lparr>newRequestErr = (\<lambda>method url. None),
      clientDo = demo_clientDo,
      timeNow = (\<lambda>tr. 1700000000000000000 + 1500000 * int (length tr)),
      unmarshalServers = demo_unmarshalServers,
      unmarshalServer = demo_unmarshalServer,
      unmarshalVMList = demo_unmarshalVMList,
      unmarshalFlavor = demo_unmarshalFlavor,
      unmarshalRuntime = demo_unmarshalRuntime\<rparr>"

text \<open>
  The trace of a listing on the sample cloud: after the authentication, after the
  building of the list request, and after its sending.
\<close>

definition demo_tr0 :: "event list" where
  "demo_tr0 =
     [HttpNewRequest ''POST'' ''http://cloud/identity/v3/auth/tokens'',
      ClientDo \<lparr>Method = ''POST'', URL = ''http://cloud/identity/v3/auth/tokens'',
                ReqHeader = [''Content-Type'' \<mapsto> [''application/json'']],
                ReqBody = Some demo_authReq\<rparr>]"

definition demo_req0 :: request where
  "demo_req0 =
     \<lparr>Method = ''GET'', URL = ''http://cloud/compute/v2.1/servers/detail'',
      ReqHeader = Map.empty, ReqBody = None\<rparr>"

definition demo_tr1 :: "event list" where
  "demo_tr1 = demo_tr0 @ [HttpNewRequest ''GET'' ''http://cloud/compute/v2.1/servers/detail'']"

definition demo_tr2 :: "event list" where
  "demo_tr2 =
     demo_tr1 @
     [ClientDo \<lparr>Method = ''GET'', URL = ''http://cloud/compute/v2.1/servers/detail'',
                ReqHeader = [''X-Auth-Token'' \<mapsto> [''abc''],
                             ''Accept'' \<mapsto> [''application/json'']],
                ReqBody = None\<rparr>]"


section \<open>Properties\<close>

subsection \<open>Evaluation on the sample cloud\<close>

lemmas lib_defs =
  http_NewRequest_def client_Do_def time_Now_def setHeader_def Header_Set_def
  Header_Get_def Let_def

lemma demo_env_fields:
  "newRequestErr demo_env method url = None"
  "clientDo demo_env = demo_clientDo"
  "timeNow demo_env tr = 1700000000000000000 + 1500000 * int (length tr)"
  "unmarshalServers demo_env = demo_unmarshalServers"
  "unmarshalServer demo_env = demo_unmarshalServer"
  "unmarshalVMList demo_env = demo_unmarshalVMList"
  "unmarshalFlavor demo_env = demo_unmarshalFlavor"
  "unmarshalRuntime demo_env = demo_unmarshalRuntime"
  by (simp_all add: demo_env_def)

lemma demo_participant_fields:
  "OpenStackEndpoint demo_participant = ''http://cloud''"
  "OpenStackApplicationCredentialID demo_participant = ''app-id''"
  "OpenStackApplicationCredentialSecret demo_participant = ''app-secret''"
  by (simp_all add: demo_participant_def)

lemma demo_server_fields:
  "S_FlavorID demo_vm1 = ''f1''" "S_Status demo_vm1 = ''ACTIVE''"
  "S_FlavorID demo_vm2 = ''f2''" "S_Status demo_vm2 = ''SHUTOFF''"
  by (simp_all add: demo_vm1_def demo_vm2_def)

lemmas demo_defs =
  demo_env_fields demo_participant_fields demo_server_fields demo_clientDo_def
  demo_authReq_def demo_response_def demo_unmarshalServers_def demo_unmarshalServer_def
  demo_unmarshalVMList_def demo_unmarshalFlavor_def demo_unmarshalRuntime_def

lemmas demo_json_defs =
  demo_servers_json_def demo_server1_json_def demo_server2_json_def demo_vm1_json_def
  demo_vm2_json_def demo_flavor1_json_def demo_notfound_json_def
  demo_unauthorized_json_def

lemma demo_auth:
  "GetAuthToken demo_env demo_participant tr =
     (Inr ''abc'',
      tr @ [HttpNewRequest ''POST'' ''http://cloud/identity/v3/auth/tokens'',
            ClientDo \<lparr>Method = ''POST'', URL = ''http://cloud/identity/v3/auth/tokens'',
                      ReqHeader = [''Content-Type'' \<mapsto> [''application/json'']],
                      ReqBody = Some demo_authReq\<rparr>])"
  by (simp add: GetAuthToken_def lib_defs demo_defs)

lemma demo_flavor_f1:
  "GetFlavorDetails demo_env demo_participant ''abc'' ''f1'' tr =
     (Inr demo_flavor1,
      tr @ [HttpNewRequest ''GET'' ''http://cloud/compute/v2.1/flavors/f1'',
            ClientDo \<lparr>Method = ''GET'', URL = ''http://cloud/compute/v2.1/flavors/f1'',
                      ReqHeader = [''X-Auth-Token'' \<mapsto> [''abc''],
                                   ''Accept'' \<mapsto> [''application/json'']],
                      ReqBody = None\<rparr>])"
  by (simp add: GetFlavorDetails_def lib_defs demo_defs)

lemma demo_flavor_f2:
  "GetFlavorDetails demo_env demo_participant ''abc'' ''f2'' tr =
     (Inl (msg_flavor_failed @ ''HTTP 404''),
      tr @ [HttpNewRequest ''GET'' ''http://cloud/compute/v2.1/flavors/f2'',
            ClientDo \<lparr>Method = ''GET'', URL = ''http://cloud/compute/v2.1/flavors/f2'',
                      ReqHeader = [''X-Auth-Token'' \<mapsto> [''abc''],
                                   ''Accept'' \<mapsto> [''application/json'']],
                      ReqBody = None\<rparr>])"
proof -
  have "fmt_d 404 = ''404''"
    by (simp add: fmt_d_def digits.simps)
  then show ?thesis
    by (simp add: GetFlavorDetails_def lib_defs demo_defs)
qed

lemma demo_server_vm1:
  "GetVMInstance demo_env \<lparr>InstanceID = ''vm-1''\<rparr> demo_participant ''abc'' tr =
     (Inr (mkVMInstance demo_vm1 demo_flavor1),
      tr @ [HttpNewRequest ''GET'' ''http://cloud/compute/v2.1/servers/vm-1'',
            ClientDo \<lparr>Method = ''GET'', URL = ''http://cloud/compute/v2.1/servers/vm-1'',
                      ReqHeader = [''X-Auth-Token'' \<mapsto> [''abc'']], ReqBody = None\<rparr>,
            HttpNewRequest ''GET'' ''http://cloud/compute/v2.1/flavors/f1'',
            ClientDo \<lparr>Method = ''GET'', URL = ''http://cloud/compute/v2.1/flavors/f1'',
                      ReqHeader = [''X-Auth-Token'' \<mapsto> [''abc''],
                                   ''Accept'' \<mapsto> [''application/json'']],
                      ReqBody = None\<rparr>])"
  by (simp add: GetVMInstance_def demo_flavor_f1 lib_defs demo_defs)

lemma demo_server_vm2:
  "GetVMInstance demo_env \<lparr>InstanceID = ''vm-2''\<rparr> demo_participant ''abc'' tr =
     (Inr (mkVMInstance demo_vm2 (unknownFlavor ''f2'')),
      tr @ [HttpNewRequest ''GET'' ''http://cloud/compute/v2.1/servers/vm-2'',
            ClientDo \<lparr>Method = ''GET'', URL = ''http://cloud/compute/v2.1/servers/vm-2'',
                      ReqHeader = [''X-Auth-Token'' \<mapsto> [''abc'']], ReqBody = None\<rparr>,
            HttpNewRequest ''GET'' ''http://cloud/compute/v2.1/flavors/f2'',
            ClientDo \<lparr>Method = ''GET'', URL = ''http://cloud/compute/v2.1/flavors/f2'',
                      ReqHeader = [''X-Auth-Token'' \<mapsto> [''abc''],
                                   ''Accept'' \<mapsto> [''application/json'']],
                      ReqBody = None\<rparr>])"
  by (simp add: GetVMInstance_def demo_flavor_f2 lib_defs demo_defs demo_json_defs)

lemma demo_server_vm9:
  "GetVMInstance demo_env \<lparr>InstanceID = ''vm-9''\<rparr> demo_participant ''abc'' tr =
     (Inl (msg_vm_info_failed @ ''HTTP 404''),
      tr @ [HttpNewRequest ''GET'' ''http://cloud/compute/v2.1/servers/vm-9'',
            ClientDo \<lparr>Method = ''GET'', URL = ''http://cloud/compute/v2.1/servers/vm-9'',
                      ReqHeader = [''X-Auth-Token'' \<mapsto> [''abc'']], ReqBody = None\<rparr>])"
proof -
  have "fmt_d 404 = ''404''"
    by (simp add: fmt_d_def digits.simps)
  then show ?thesis
    by (simp add: GetVMInstance_def lib_defs demo_defs)
qed

lemma demo_all:
  "GetAllVMInstances demo_env demo_participant [] =
     (Inr [mkVMInstance demo_vm1 demo_flavor1, mkVMInstance demo_vm2 (unknownFlavor ''f2'')],
      [HttpNewRequest ''POST'' ''http://cloud/identity/v3/auth/tokens'',
       ClientDo \<lparr>Method = ''POST'', URL = ''http://cloud/identity/v3/auth/tokens'',
                 ReqHeader = [''Content-Type'' \<mapsto> [''application/json'']],
                 ReqBody = Some demo_authReq\<rparr>,
       HttpNewRequest ''GET'' ''http://cloud/compute/v2.1/servers/detail'',
       ClientDo \<lparr>Method = ''GET'', URL = ''http://cloud/compute/v2.1/servers/detail'',
                 ReqHeader = [''X-Auth-Token'' \<mapsto> [''abc''],
                              ''Accept'' \<mapsto> [''application/json'']],
                 ReqBody = None\<rparr>,
       HttpNewRequest ''GET'' ''http://cloud/compute/v2.1/flavors/f1'',
       ClientDo \<lparr>Method = ''GET'', URL = ''http://cloud/compute/v2.1/flavors/f1'',
                 ReqHeader = [''X-Auth-Token'' \<mapsto> [''abc''],
                              ''Accept'' \<mapsto> [''application/json'']],
                 ReqBody = None\<rparr>,
       HttpNewRequest ''GET'' ''http://cloud/compute/v2.1/flavors/f2'',
       ClientDo \<lparr>Method = ''GET'', URL = ''http://cloud/compute/v2.1/flavors/f2'',
                 ReqHeader = [''X-Auth-Token'' \<mapsto> [''abc''],
                              ''Accept'' \<mapsto> [''application/json'']],
                 ReqBody = None\<rparr>])"
  by (simp add: GetAllVMInstances_def demo_auth demo_flavor_f1 demo_flavor_f2 lib_defs
      demo_defs)

subsection \<open>Authentication\<close>

text \<open>
  Claim C3. When the application-credential ID or secret of the participant is the empty
  string, \<open>GetAuthToken\<close> fails with the configuration error of line 118 and the trace
  of library calls is unchanged: no request was built and none was sent.
\<close>

theorem GetAuthToken_empty_credential:
  assumes "OpenStackApplicationCredentialID participant = []
             \<or> OpenStackApplicationCredentialSecret participant = []"
  shows "GetAuthToken env participant tr = (Inl msg_credential_required, tr)"
  using assms by (auto simp: GetAuthToken_def)

theorem GetAuthToken_empty_credential_witness:
  "(OpenStackApplicationCredentialID (demo_participant\<lparr>OpenStackApplicationCredentialSecret := []\<rparr>) = []
      \<or> OpenStackApplicationCredentialSecret (demo_participant\<lparr>OpenStackApplicationCredentialSecret := []\<rparr>) = [])
   \<and> GetAuthToken demo_env (demo_participant\<lparr>OpenStackApplicationCredentialSecret := []\<rparr>) []
       = (Inl msg_credential_required, [])"
  using GetAuthToken_empty_credential
    [of "demo_participant\<lparr>OpenStackApplicationCredentialSecret := []\<rparr>" demo_env "[]"]
  by simp



lemma GetAuthToken_success_needs_response:
  assumes "GetAuthToken env participant tr = (Inr t, tr')"
  shows "\<exists>tr1 req resp. tr' = tr1 @ [ClientDo req] \<and> clientDo env tr1 req = Inr resp
           \<and> StatusCode resp = 201
           \<and> Header_Get (RespHeader resp) ''X-Subject-Token'' = t \<and> t \<noteq> []"
  using assms
  by (auto simp: GetAuthToken_def http_NewRequest_def client_Do_def Let_def
           split: option.splits sum.splits if_splits)

subsection \<open>Fetching one instance\<close>

text \<open>
  Claim C10. When the instance id of the virtual machine is the empty string,
  \<open>GetVMInstance\<close> fails at once with the error of line 243 and the trace of library
  calls is unchanged: no request was built and none was sent. Hence a call that did
  extend the trace had a non-empty instance id.
\<close>

theorem GetVMInstance_empty_id:
  "(InstanceID vm = [] \<longrightarrow>
      GetVMInstance env vm participant token tr = (Inl msg_instance_id_unset, tr))
   \<and> (snd (GetVMInstance env vm participant token tr) \<noteq> tr \<longrightarrow> InstanceID vm \<noteq> [])"
  by (auto simp: GetVMInstance_def)

theorem GetVMInstance_empty_id_witness:
  "InstanceID \<lparr>InstanceID = []\<rparr> = []
   \<and> GetVMInstance demo_env \<lparr>InstanceID = []\<rparr> demo_participant ''abc'' []
       = (Inl msg_instance_id_unset, [])
   \<and> snd (GetVMInstance demo_env \<lparr>InstanceID = ''vm-1''\<rparr> demo_participant ''abc'' []) \<noteq> []
   \<and> InstanceID \<lparr>InstanceID = ''vm-1''\<rparr> \<noteq> []"
proof -
  have sent:
    "snd (GetVMInstance demo_env \<lparr>InstanceID = ''vm-1''\<rparr> demo_participant ''abc'' []) \<noteq> []"
    by (simp add: demo_server_vm1)
  show ?thesis
    using sent
      GetVMInstance_empty_id [of "\<lparr>InstanceID = []\<rparr>" demo_env demo_participant "''abc''" "[]"]
      GetVMInstance_empty_id
        [of "\<lparr>InstanceID = ''vm-1''\<rparr>" demo_env demo_participant "''abc''" "[]"]
    by simp
qed

subsection \<open>The monitoring stub\<close>

text \<open>
  Claim C9. Two calls of \<open>GetVMMonitoringInfo\<close> with the same instance id, in whatever
  environment and after whatever history, both succeed; the numeric fields are the
  constants of lines 545-549 in both, and the two results agree in every field except
  \<open>LastUpdated\<close>, which is the clock reading of the call.
\<close>

theorem GetVMMonitoringInfo_numeric_fields_constant:
  "\<exists>m1 m2 t1 t2.
      GetVMMonitoringInfo env1 instanceID tr1 = (Inr m1, t1)
    \<and> GetVMMonitoringInfo env2 instanceID tr2 = (Inr m2, t2)
    \<and> CPUUsage m1 = 75.5 \<and> MemoryUsage m1 = 82.3 \<and> DiskUsage m1 = 45.8
    \<and> NetworkInBytes m1 = 1024000 \<and> NetworkOutBytes m1 = 2048000
    \<and> CPUUsage m2 = CPUUsage m1 \<and> MemoryUsage m2 = MemoryUsage m1
    \<and> DiskUsage m2 = DiskUsage m1
    \<and> NetworkInBytes m2 = NetworkInBytes m1 \<and> NetworkOutBytes m2 = NetworkOutBytes m1
    \<and> m2 = m1\<lparr>LastUpdated := LastUpdated m2\<rparr>
    \<and> LastUpdated m1 = timeNow env1 tr1 \<and> LastUpdated m2 = timeNow env2 tr2"
  by (simp add: GetVMMonitoringInfo_def time_Now_def)

lemma GetVMMonitoringInfo_timestamps_differ:
  "map_sum id LastUpdated (fst (GetVMMonitoringInfo demo_env ''vm-1'' []))
     = Inr 1700000000000000000
   \<and> map_sum id LastUpdated
         (fst (GetVMMonitoringInfo demo_env ''vm-1''
                 (snd (GetVMMonitoringInfo demo_env ''vm-1'' []))))
     = Inr 1700000000001500000"
  by (simp add: GetVMMonitoringInfo_def time_Now_def demo_env_fields)

subsection \<open>The health probe\<close>

text \<open>
  Claim C5. \<open>HealthCheckSpecificVM\<close> always returns a health result, never an error.
  When authentication fails, or when fetching the instance fails, the result is not
  healthy, its status is \<open>ERROR\<close> and its message ends with the text of the cause. When
  the instance is fetched, the result is healthy exactly when the status of the instance
  is \<open>ACTIVE\<close>, the status is reported as it is, and a status other than \<open>ACTIVE\<close> is
  repeated at the end of the message.
\<close>

theorem HealthCheckSpecificVM_never_fails:
  "\<exists>r tr'. HealthCheckSpecificVM env participant vm tr = (Inr r, tr')
     \<and> (\<forall>err tr1. GetAuthToken env participant (tr @ [TimeNow]) = (Inl err, tr1) \<longrightarrow>
            \<not> Healthy r \<and> H_Status r = ''ERROR'' \<and> Message r = msg_auth_failed @ err)
     \<and> (\<forall>token tr1 err tr2.
            GetAuthToken env participant (tr @ [TimeNow]) = (Inr token, tr1)
            \<and> GetVMInstance env vm participant token tr1 = (Inl err, tr2) \<longrightarrow>
            \<not> Healthy r \<and> H_Status r = ''ERROR'' \<and> Message r = msg_vm_lookup_failed @ err)
     \<and> (\<forall>token tr1 instance tr2.
            GetAuthToken env participant (tr @ [TimeNow]) = (Inr token, tr1)
            \<and> GetVMInstance env vm participant token tr1 = (Inr instance, tr2) \<longrightarrow>
            (Healthy r \<longleftrightarrow> Status instance = ''ACTIVE'')
            \<and> H_Status r = Status instance
            \<and> (Status instance \<noteq> ''ACTIVE'' \<longrightarrow>
                 Message r = msg_vm_abnormal @ Status instance))"
  by (auto simp: HealthCheckSpecificVM_def healthResult_def time_Now_def Let_def
           split: prod.splits sum.splits)

theorem HealthCheckSpecificVM_never_fails_witness:
  "(\<exists>r tr'.
      HealthCheckSpecificVM demo_env
        (demo_participant\<lparr>OpenStackApplicationCredentialSecret := []\<rparr>)
        \<lparr>InstanceID = ''vm-1''\<rparr> [] = (Inr r, tr')
      \<and> GetAuthToken demo_env (demo_participant\<lparr>OpenStackApplicationCredentialSecret := []\<rparr>)
            [TimeNow] = (Inl msg_credential_required, [TimeNow])
      \<and> \<not> Healthy r \<and> H_Status r = ''ERROR''
      \<and> Message r = msg_auth_failed @ msg_credential_required)
   \<and> (\<exists>r tr'.
      HealthCheckSpecificVM demo_env demo_participant \<lparr>InstanceID = ''vm-9''\<rparr> []
        = (Inr r, tr')
      \<and> fst (GetAuthToken demo_env demo_participant [TimeNow]) = Inr ''abc''
      \<and> fst (GetVMInstance demo_env \<lparr>InstanceID = ''vm-9''\<rparr> demo_participant ''abc''
                (snd (GetAuthToken demo_env demo_participant [TimeNow])))
          = Inl (msg_vm_info_failed @ ''HTTP 404'')
      \<and> \<not> Healthy r \<and> H_Status r = ''ERROR''
      \<and> Message r = msg_vm_lookup_failed @ msg_vm_info_failed @ ''HTTP 404'')
   \<and> (\<exists>r tr'.
      HealthCheckSpecificVM demo_env demo_participant \<lparr>InstanceID = ''vm-1''\<rparr> []
        = (Inr r, tr')
      \<and> fst (GetVMInstance demo_env \<lparr>InstanceID = ''vm-1''\<rparr> demo_participant ''abc''
                (snd (GetAuthToken demo_env demo_participant [TimeNow])))
          = Inr (mkVMInstance demo_vm1 demo_flavor1)
      \<and> Healthy r \<and> H_Status r = ''ACTIVE'')
   \<and> (\<exists>r tr'.
      HealthCheckSpecificVM demo_env demo_participant \<lparr>InstanceID = ''vm-2''\<rparr> []
        = (Inr r, tr')
      \<and> fst (GetVMInstance demo_env \<lparr>InstanceID = ''vm-2''\<rparr> demo_participant ''abc''
                (snd (GetAuthToken demo_env demo_participant [TimeNow])))
          = Inr (mkVMInstance demo_vm2 (unknownFlavor ''f2''))
      \<and> \<not> Healthy r \<and> H_Status r = ''SHUTOFF''
      \<and> Message r = msg_vm_abnormal @ ''SHUTOFF'')"
proof -
  let ?nocred = "demo_participant\<lparr>OpenStackApplicationCredentialSecret := []\<rparr>"
  have refused: "GetAuthToken demo_env ?nocred [TimeNow]
                   = (Inl msg_credential_required, [TimeNow])"
    by (simp add: GetAuthToken_def)
  have status1: "Status (mkVMInstance demo_vm1 demo_flavor1) = ''ACTIVE''"
    by (simp add: mkVMInstance_def demo_server_fields)
  have status2: "Status (mkVMInstance demo_vm2 (unknownFlavor ''f2'')) = ''SHUTOFF''"
    by (simp add: mkVMInstance_def demo_server_fields)
  show ?thesis
    using HealthCheckSpecificVM_never_fails [of demo_env ?nocred "\<lparr>InstanceID = ''vm-1''\<rparr>" "[]"]
      HealthCheckSpecificVM_never_fails
        [of demo_env demo_participant "\<lparr>InstanceID = ''vm-9''\<rparr>" "[]"]
      HealthCheckSpecificVM_never_fails
        [of demo_env demo_participant "\<lparr>InstanceID = ''vm-1''\<rparr>" "[]"]
      HealthCheckSpecificVM_never_fails
        [of demo_env demo_participant "\<lparr>InstanceID = ''vm-2''\<rparr>" "[]"]
      refused status1 status2
    by (auto simp: demo_auth demo_server_vm1 demo_server_vm2 demo_server_vm9)
qed

subsection \<open>The enrichment loop\<close>

text \<open>
  A flavor lookup extends the trace by the building of its request and, when the request
  was built, by its sending.
\<close>

lemma GetFlavorDetails_trace:
  fixes participant token flavorID
  defines "url \<equiv> OpenStackEndpoint participant @ ''/compute/v2.1/flavors/'' @ flavorID"
  shows "snd (GetFlavorDetails env participant token flavorID tr)
           = tr @ [HttpNewRequest ''GET'' url]
         \<or> snd (GetFlavorDetails env participant token flavorID tr)
           = tr @ [HttpNewRequest ''GET'' url,
                   ClientDo \<lparr>Method = ''GET'', URL = url,
                             ReqHeader = [''X-Auth-Token'' \<mapsto> [token],
                                          ''Accept'' \<mapsto> [''application/json'']],
                             ReqBody = None\<rparr>]"
  unfolding url_def
  by (auto simp: GetFlavorDetails_def lib_defs
           split: option.splits sum.splits if_splits prod.splits)

text \<open>
  The loop in closed form: the descriptor at position \<open>i\<close> is made from server \<open>i\<close> and
  from the flavor lookup that runs after the lookups of the servers before it; the
  trace is the one these lookups leave, one after the other.
\<close>

lemma enrichServers_closed_form:
  "enrichServers env participant token servers vmInstances tr =
     (vmInstances @
        map (\<lambda>i. mkVMInstance (servers ! i)
                   (case fst (GetFlavorDetails env participant token (S_FlavorID (servers ! i))
                                (fold (\<lambda>server t. snd (GetFlavorDetails env participant token
                                                          (S_FlavorID server) t))
                                      (take i servers) tr)) of
                      Inl err \<Rightarrow> unknownFlavor (S_FlavorID (servers ! i))
                    | Inr f \<Rightarrow> f))
            [0..<length servers],
      fold (\<lambda>server t. snd (GetFlavorDetails env participant token (S_FlavorID server) t))
           servers tr)"
proof (induction servers arbitrary: vmInstances tr)
  case Nil
  show ?case by simp
next
  case (Cons server servers)
  show ?case
    by (simp add: Cons.IH map_upt_Suc split: prod.splits del: upt_Suc cong: sum.case_cong)
qed

lemma lookups_trace:
  fixes participant token
  defines "url \<equiv> \<lambda>server. OpenStackEndpoint participant @ ''/compute/v2.1/flavors/''
                              @ S_FlavorID server"
  shows "\<exists>blocks.
           fold (\<lambda>server t. snd (GetFlavorDetails env participant token (S_FlavorID server) t))
                servers tr = tr @ concat blocks
         \<and> list_all2
             (\<lambda>server block.
                block = [HttpNewRequest ''GET'' (url server)]
              \<or> block = [HttpNewRequest ''GET'' (url server),
                          ClientDo \<lparr>Method = ''GET'', URL = url server,
                                    ReqHeader = [''X-Auth-Token'' \<mapsto> [token],
                                                 ''Accept'' \<mapsto> [''application/json'']],
                                    ReqBody = None\<rparr>])
             servers blocks"
proof (induction servers arbitrary: tr)
  case Nil
  show ?case by simp
next
  case (Cons server servers)
  let ?tr1 = "snd (GetFlavorDetails env participant token (S_FlavorID server) tr)"
  obtain block where
    first: "?tr1 = tr @ block"
      "block = [HttpNewRequest ''GET'' (url server)]
       \<or> block = [HttpNewRequest ''GET'' (url server),
                   ClientDo \<lparr>Method = ''GET'', URL = url server,
                             ReqHeader = [''X-Auth-Token'' \<mapsto> [token],
                                          ''Accept'' \<mapsto> [''application/json'']],
                             ReqBody = None\<rparr>]"
    using GetFlavorDetails_trace [of env participant token "S_FlavorID server" tr]
    unfolding url_def by blast
  from Cons.IH [of ?tr1] obtain blocks where
    rest: "fold (\<lambda>server t. snd (GetFlavorDetails env participant token (S_FlavorID server) t))
             servers ?tr1 = ?tr1 @ concat blocks"
      "list_all2
         (\<lambda>server block.
            block = [HttpNewRequest ''GET'' (url server)]
          \<or> block = [HttpNewRequest ''GET'' (url server),
                      ClientDo \<lparr>Method = ''GET'', URL = url server,
                                ReqHeader = [''X-Auth-Token'' \<mapsto> [token],
                                             ''Accept'' \<mapsto> [''application/json'']],
                                ReqBody = None\<rparr>])
         servers blocks"
    by blast
  show ?case
  proof (intro exI conjI)
    show "fold (\<lambda>server t. snd (GetFlavorDetails env participant token (S_FlavorID server) t))
            (server # servers) tr = tr @ concat (block # blocks)"
      using first(1) rest(1) by simp
    show "list_all2
            (\<lambda>server block.
               block = [HttpNewRequest ''GET'' (url server)]
             \<or> block = [HttpNewRequest ''GET'' (url server),
                         ClientDo \<lparr>Method = ''GET'', URL = url server,
                                   ReqHeader = [''X-Auth-Token'' \<mapsto> [token],
                                                ''Accept'' \<mapsto> [''application/json'']],
                                   ReqBody = None\<rparr>])
            (server # servers) (block # blocks)"
      using first(2) rest(2) by simp
  qed
qed

lemma enrichServers_trace_extends:
  assumes "enrichServers env participant token servers vmInstances tr = (result, tr')"
  shows "\<exists>rest. tr' = tr @ rest"
  using assms lookups_trace [of env participant token servers tr]
  by (auto simp: enrichServers_closed_form)

subsection \<open>What a successful fetch has seen\<close>

lemma GetVMInstance_success:
  fixes participant vm token
  defines "url \<equiv> OpenStackEndpoint participant @ ''/compute/v2.1/servers/'' @ InstanceID vm"
  defines "req \<equiv> \<lparr>Method = ''GET'', URL = url, ReqHeader = [''X-Auth-Token'' \<mapsto> [token]],
                    ReqBody = None\<rparr>"
  assumes "GetVMInstance env vm participant token tr = (Inr instance, tr')"
  shows "\<exists>resp server r.
           clientDo env (tr @ [HttpNewRequest ''GET'' url]) req = Inr resp
         \<and> StatusCode resp = 200
         \<and> unmarshalServer env (Body resp) = Inr server
         \<and> r = fst (GetFlavorDetails env participant token (S_FlavorID server)
                       (tr @ [HttpNewRequest ''GET'' url, ClientDo req]))
         \<and> ID instance = S_ID server \<and> Name instance = S_Name server
         \<and> Status instance = S_Status server
         \<and> Flavor instance
               = (case r of Inl err \<Rightarrow> unknownFlavor (S_FlavorID server) | Inr f \<Rightarrow> f)
         \<and> Addresses instance = S_Addresses server
         \<and> PowerState instance = S_PowerState server
         \<and> Created instance = S_Created server \<and> Updated instance = S_Updated server
         \<and> AvailabilityZone instance = []"
  using assms
  by (auto simp: GetVMInstance_def mkVMInstance_def lib_defs
           split: option.splits sum.splits if_splits prod.splits)

lemma ListVMInstances_success:
  fixes participant token
  defines "url \<equiv> OpenStackEndpoint participant @ ''/v2.1/servers/detail''"
  defines "req \<equiv> \<lparr>Method = ''GET'', URL = url, ReqHeader = [''X-Auth-Token'' \<mapsto> [token]],
                    ReqBody = None\<rparr>"
  assumes "ListVMInstances env participant token tr = (Inr servers, tr')"
  shows "\<exists>resp.
           clientDo env (tr @ [HttpNewRequest ''GET'' url]) req = Inr resp
         \<and> StatusCode resp = 200
         \<and> unmarshalVMList env (Body resp) = Inr servers"
  using assms
  by (auto simp: ListVMInstances_def lib_defs
           split: option.splits sum.splits if_splits prod.splits)

lemma GetAllVMInstances_success:
  fixes participant token
  defines "url \<equiv> OpenStackEndpoint participant @ ''/compute/v2.1/servers/detail''"
  defines "req \<equiv> \<lparr>Method = ''GET'', URL = url,
                    ReqHeader = [''X-Auth-Token'' \<mapsto> [token],
                                 ''Accept'' \<mapsto> [''application/json'']],
                    ReqBody = None\<rparr>"
  assumes "GetAllVMInstances env participant tr = (Inr vmInstances, tr')"
      and "GetAuthToken env participant tr = (Inr token, tr0)"
  shows "\<exists>resp servers.
           clientDo env (tr0 @ [HttpNewRequest ''GET'' url]) req = Inr resp
         \<and> StatusCode resp = 200
         \<and> unmarshalServers env (Body resp) = Inr servers
         \<and> enrichServers env participant token servers []
               (tr0 @ [HttpNewRequest ''GET'' url, ClientDo req]) = (vmInstances, tr')"
  using assms
  by (auto simp: GetAllVMInstances_def lib_defs
           split: option.splits sum.splits if_splits prod.splits)

text \<open>
  Claim C1. The descriptor built by \<open>GetVMInstance\<close> and \<open>GetAllVMInstances\<close> takes the
  id, name, status, address map, power-state code and both timestamps from the decoded
  server and the flavor from the decoded flavor (\<open>GetVMInstance_success\<close>), but not the
  availability zone: on the sample cloud the server JSON of \<open>vm-1\<close> says \<open>nova\<close>, both
  calls succeed with the flavor found, and the descriptor's zone is empty.
\<close>

theorem descriptor_loses_availability_zone:
  "unmarshalServer demo_env demo_server1_json = Inr demo_vm1
   \<and> unmarshalServers demo_env demo_servers_json = Inr [demo_vm1, demo_vm2]
   \<and> S_AvailabilityZone demo_vm1 = ''nova''
   \<and> fst (GetVMInstance demo_env \<lparr>InstanceID = ''vm-1''\<rparr> demo_participant ''abc'' [])
       = Inr \<lparr>ID = ''vm-1'', Name = ''alpha'', Status = ''ACTIVE'',
              Flavor = \<lparr>F_ID = ''f1'', F_Name = ''m1.small'', VCPUs = 1, RAM = 2048,
                        Disk = 20\<rparr>,
              Addresses = [''private'' \<mapsto> [\<lparr>Addr = ''10.0.0.5'', IPType = ''fixed''\<rparr>]],
              PowerState = 1, AvailabilityZone = [],
              Created = ''2025-01-01T00:00:00Z'', Updated = ''2025-01-02T00:00:00Z''\<rparr>
   \<and> map_sum id (map AvailabilityZone) (fst (GetAllVMInstances demo_env demo_participant []))
       = Inr [[], []]"
  by (simp add: demo_server_vm1 demo_all mkVMInstance_def demo_vm1_def demo_flavor1_def
      demo_env_fields demo_unmarshalServer_def demo_unmarshalServers_def)

subsection \<open>Status codes\<close>

text \<open>
  Claim C2. \<open>GetVMInstance\<close>, \<open>ListVMInstances\<close> and \<open>GetAllVMInstances\<close> succeed only on
  a response of status 200 (the three lemmas above). \<open>GetVMRuntimeStatus\<close> does not look
  at the status: asked for the unknown instance \<open>vm-9\<close>, the sample cloud answers 404
  with an error object, and the call returns a runtime record with an empty status and
  power state 0 instead of a failure.
\<close>

theorem GetVMRuntimeStatus_ignores_status_code:
  "clientDo demo_env
     [HttpNewRequest ''POST'' ''http://cloud/identity/v3/auth/tokens'',
      ClientDo \<lparr>Method = ''POST'', URL = ''http://cloud/identity/v3/auth/tokens'',
                ReqHeader = [''Content-Type'' \<mapsto> [''application/json'']],
                ReqBody = Some demo_authReq\<rparr>,
      HttpNewRequest ''GET'' ''http://cloud/compute/v2.1/servers/vm-9'']
     \<lparr>Method = ''GET'', URL = ''http://cloud/compute/v2.1/servers/vm-9'',
      ReqHeader = [''X-Auth-Token'' \<mapsto> [''abc'']], ReqBody = None\<rparr>
     = Inr \<lparr>StatusCode = 404, RespHeader = [''Content-Type'' \<mapsto> [''application/json'']],
            Body = demo_notfound_json, BodyErr = None\<rparr>
   \<and> GetVMRuntimeStatus demo_env demo_participant ''vm-9'' []
     = (Inr \<lparr>R_InstanceID = ''vm-9'', R_Status = [], R_PowerState = 0,
             LastChecked = 1700000000006000000\<rparr>,
        [HttpNewRequest ''POST'' ''http://cloud/identity/v3/auth/tokens'',
         ClientDo \<lparr>Method = ''POST'', URL = ''http://cloud/identity/v3/auth/tokens'',
                   ReqHeader = [''Content-Type'' \<mapsto> [''application/json'']],
                   ReqBody = Some demo_authReq\<rparr>,
         HttpNewRequest ''GET'' ''http://cloud/compute/v2.1/servers/vm-9'',
         ClientDo \<lparr>Method = ''GET'', URL = ''http://cloud/compute/v2.1/servers/vm-9'',
                   ReqHeader = [''X-Auth-Token'' \<mapsto> [''abc'']], ReqBody = None\<rparr>,
         TimeNow])"
  by (simp add: GetVMRuntimeStatus_def demo_auth lib_defs demo_defs demo_json_defs)

subsection \<open>The URL of the listing\<close>

lemma GetAllVMInstances_url:
  assumes "GetAuthToken env participant tr = (Inr token, tr0)"
  shows "\<exists>rest. snd (GetAllVMInstances env participant tr)
           = tr0 @ HttpNewRequest ''GET''
                     (OpenStackEndpoint participant @ ''/compute/v2.1/servers/detail'') # rest"
  using assms
  by (auto simp: GetAllVMInstances_def lib_defs dest!: enrichServers_trace_extends
           split: option.splits sum.splits if_splits prod.splits)

lemma ListVMInstances_url:
  "\<exists>rest. snd (ListVMInstances env participant token tr)
     = tr @ HttpNewRequest ''GET'' (OpenStackEndpoint participant @ ''/v2.1/servers/detail'')
            # rest"
  by (auto simp: ListVMInstances_def lib_defs
           split: option.splits sum.splits if_splits prod.splits)

text \<open>
  Claim C7. \<open>GetAllVMInstances\<close> asks for \<open>{endpoint}/compute/v2.1/servers/detail\<close>
  (\<open>GetAllVMInstances_url\<close>), but \<open>ListVMInstances\<close> asks for
  \<open>{endpoint}/v2.1/servers/detail\<close>, without \<open>/compute\<close> (\<open>ListVMInstances_url\<close>). On the
  sample cloud, whose endpoint is \<open>http://cloud\<close>, the request of \<open>ListVMInstances\<close>
  carries the token in \<open>X-Auth-Token\<close>, goes to \<open>http://cloud/v2.1/servers/detail\<close> and
  is answered 404.
\<close>

theorem ListVMInstances_url_lacks_compute:
  "ListVMInstances demo_env demo_participant ''abc'' []
     = (Inl (msg_vm_list_failed @ ''HTTP 404''),
        [HttpNewRequest ''GET'' ''http://cloud/v2.1/servers/detail'',
         ClientDo \<lparr>Method = ''GET'', URL = ''http://cloud/v2.1/servers/detail'',
                   ReqHeader = [''X-Auth-Token'' \<mapsto> [''abc'']], ReqBody = None\<rparr>])"
proof -
  have "fmt_d 404 = ''404''"
    by (simp add: fmt_d_def digits.simps)
  then show ?thesis
    by (simp add: ListVMInstances_def lib_defs demo_defs)
qed

subsection \<open>Listing with enrichment\<close>

lemma GetAllVMInstances_enriches:
  assumes "GetAuthToken env participant tr = (Inr token, tr0)"
      and "http_NewRequest env ''GET''
             (OpenStackEndpoint participant @ ''/compute/v2.1/servers/detail'') None tr0
           = (Inr req0, tr1)"
      and "client_Do env
             (setHeader (setHeader req0 ''X-Auth-Token'' token) ''Accept'' ''application/json'')
             tr1 = (Inr resp, tr2)"
      and "BodyErr resp = None" and "StatusCode resp = 200"
      and "unmarshalServers env (Body resp) = Inr servers"
  shows "GetAllVMInstances env participant tr
           = (Inr (fst (enrichServers env participant token servers [] tr2)),
              snd (enrichServers env participant token servers [] tr2))"
  using assms by (simp add: GetAllVMInstances_def Let_def split: prod.splits)

lemma demo_list_steps:
  "GetAuthToken demo_env demo_participant [] = (Inr ''abc'', demo_tr0)"
  "http_NewRequest demo_env ''GET''
     (OpenStackEndpoint demo_participant @ ''/compute/v2.1/servers/detail'') None demo_tr0
   = (Inr demo_req0, demo_tr1)"
  "client_Do demo_env
     (setHeader (setHeader demo_req0 ''X-Auth-Token'' ''abc'') ''Accept'' ''application/json'')
     demo_tr1
   = (Inr (demo_response 200 demo_servers_json), demo_tr2)"
  "BodyErr (demo_response 200 demo_servers_json) = None"
  "StatusCode (demo_response 200 demo_servers_json) = 200"
  "unmarshalServers demo_env (Body (demo_response 200 demo_servers_json))
     = Inr [demo_vm1, demo_vm2]"
  using demo_auth [of "[]"]
  by (simp_all add: lib_defs demo_env_fields demo_participant_fields demo_clientDo_def
      demo_response_def demo_unmarshalServers_def demo_tr0_def demo_tr1_def demo_tr2_def
      demo_req0_def)

text \<open>
  Claim C4. When \<open>GetAllVMInstances\<close> has authenticated, fetched the list with status
  200 and decoded it into \<open>servers\<close>, it succeeds with exactly one descriptor per server;
  the descriptor at position \<open>i\<close> has the id of server \<open>i\<close>, and when the flavor lookup
  of server \<open>i\<close> (made after the lookups of the servers before it) fails, its flavor is
  the placeholder: the server's flavor id, the name \<open>Unknown\<close>, and 0 for vCPUs, RAM
  and disk.
\<close>

theorem GetAllVMInstances_masks_flavor_failure:
  fixes env participant token
  defines "lookup \<equiv> \<lambda>server t. GetFlavorDetails env participant token (S_FlavorID server) t"
  assumes "GetAuthToken env participant tr = (Inr token, tr0)"
      and "http_NewRequest env ''GET''
             (OpenStackEndpoint participant @ ''/compute/v2.1/servers/detail'') None tr0
           = (Inr req0, tr1)"
      and "client_Do env
             (setHeader (setHeader req0 ''X-Auth-Token'' token) ''Accept'' ''application/json'')
             tr1 = (Inr resp, tr2)"
      and "BodyErr resp = None" and "StatusCode resp = 200"
      and "unmarshalServers env (Body resp) = Inr servers"
  shows "\<exists>vmInstances tr'.
           GetAllVMInstances env participant tr = (Inr vmInstances, tr')
         \<and> length vmInstances = length servers
         \<and> (\<forall>i<length servers.
               ID (vmInstances ! i) = S_ID (servers ! i)
             \<and> (\<forall>err. fst (lookup (servers ! i)
                               (fold (\<lambda>server t. snd (lookup server t)) (take i servers) tr2))
                          = Inl err \<longrightarrow>
                    Flavor (vmInstances ! i)
                      = \<lparr>F_ID = S_FlavorID (servers ! i), F_Name = ''Unknown'',
                         VCPUs = 0, RAM = 0, Disk = 0\<rparr>))"
  unfolding lookup_def GetAllVMInstances_enriches [OF assms(2-7)]
  by (auto simp: enrichServers_closed_form mkVMInstance_def unknownFlavor_def
           cong: sum.case_cong)

theorem GetAllVMInstances_masks_flavor_failure_witness:
  "GetAuthToken demo_env demo_participant [] = (Inr ''abc'', demo_tr0)
   \<and> http_NewRequest demo_env ''GET''
         (OpenStackEndpoint demo_participant @ ''/compute/v2.1/servers/detail'') None demo_tr0
       = (Inr demo_req0, demo_tr1)
   \<and> client_Do demo_env
         (setHeader (setHeader demo_req0 ''X-Auth-Token'' ''abc'') ''Accept''
            ''application/json'') demo_tr1
       = (Inr (demo_response 200 demo_servers_json), demo_tr2)
   \<and> BodyErr (demo_response 200 demo_servers_json) = None
   \<and> StatusCode (demo_response 200 demo_servers_json) = 200
   \<and> unmarshalServers demo_env (Body (demo_response 200 demo_servers_json))
       = Inr [demo_vm1, demo_vm2]
   \<and> Suc 0 < length [demo_vm1, demo_vm2]
   \<and> fst (GetFlavorDetails demo_env demo_participant ''abc''
             (S_FlavorID ([demo_vm1, demo_vm2] ! Suc 0))
             (fold (\<lambda>server t. snd (GetFlavorDetails demo_env demo_participant ''abc''
                                       (S_FlavorID server) t))
                   (take (Suc 0) [demo_vm1, demo_vm2]) demo_tr2))
       = Inl (msg_flavor_failed @ ''HTTP 404'')
   \<and> (\<exists>vmInstances tr'.
         GetAllVMInstances demo_env demo_participant [] = (Inr vmInstances, tr')
       \<and> length vmInstances = 2
       \<and> ID (vmInstances ! Suc 0) = ''vm-2''
       \<and> Flavor (vmInstances ! Suc 0)
           = \<lparr>F_ID = ''f2'', F_Name = ''Unknown'', VCPUs = 0, RAM = 0, Disk = 0\<rparr>)"
proof -
  have failed:
    "fst (GetFlavorDetails demo_env demo_participant ''abc''
            (S_FlavorID ([demo_vm1, demo_vm2] ! Suc 0))
            (fold (\<lambda>server t. snd (GetFlavorDetails demo_env demo_participant ''abc''
                                      (S_FlavorID server) t))
                  (take (Suc 0) [demo_vm1, demo_vm2]) demo_tr2))
       = Inl (msg_flavor_failed @ ''HTTP 404'')"
    by (simp add: demo_server_fields demo_flavor_f1 demo_flavor_f2)
  obtain vmInstances tr' where
    result: "GetAllVMInstances demo_env demo_participant [] = (Inr vmInstances, tr')"
      "length vmInstances = length [demo_vm1, demo_vm2]"
    and each: "\<forall>i<length [demo_vm1, demo_vm2].
        ID (vmInstances ! i) = S_ID ([demo_vm1, demo_vm2] ! i)
      \<and> (\<forall>err. fst (GetFlavorDetails demo_env demo_participant ''abc''
                        (S_FlavorID ([demo_vm1, demo_vm2] ! i))
                        (fold (\<lambda>server t. snd (GetFlavorDetails demo_env demo_participant
                                                  ''abc'' (S_FlavorID server) t))
                              (take i [demo_vm1, demo_vm2]) demo_tr2))
                   = Inl err \<longrightarrow>
             Flavor (vmInstances ! i)
               = \<lparr>F_ID = S_FlavorID ([demo_vm1, demo_vm2] ! i), F_Name = ''Unknown'',
                  VCPUs = 0, RAM = 0, Disk = 0\<rparr>)"
    using GetAllVMInstances_masks_flavor_failure [OF demo_list_steps] by blast
  have second: "ID (vmInstances ! Suc 0) = ''vm-2''"
    "Flavor (vmInstances ! Suc 0)
       = \<lparr>F_ID = ''f2'', F_Name = ''Unknown'', VCPUs = 0, RAM = 0, Disk = 0\<rparr>"
    using each [rule_format, of "Suc 0"] failed
    by (simp_all add: demo_server_fields demo_vm2_def)
  show ?thesis
    using demo_list_steps failed result second by simp
qed

lemma GetFlavorDetails_trace_exact:
  fixes participant token flavorID
  defines "url \<equiv> OpenStackEndpoint participant @ ''/compute/v2.1/flavors/'' @ flavorID"
  shows "snd (GetFlavorDetails env participant token flavorID tr)
           = tr @ (if newRequestErr env ''GET'' url = None
                   then [HttpNewRequest ''GET'' url,
                         ClientDo \<lparr>Method = ''GET'', URL = url,
                                   ReqHeader = [''X-Auth-Token'' \<mapsto> [token],
                                                ''Accept'' \<mapsto> [''application/json'']],
                                   ReqBody = None\<rparr>]
                   else [HttpNewRequest ''GET'' url])"
  unfolding url_def
  by (auto simp: GetFlavorDetails_def lib_defs
           split: option.splits sum.splits if_splits prod.splits)

lemma lookups_trace_exact:
  fixes env participant token
  defines "url \<equiv> \<lambda>server. OpenStackEndpoint participant @ ''/compute/v2.1/flavors/''
                              @ S_FlavorID server"
  defines "block \<equiv> \<lambda>server.
             if newRequestErr env ''GET'' (url server) = None
             then [HttpNewRequest ''GET'' (url server),
                   ClientDo \<lparr>Method = ''GET'', URL = url server,
                             ReqHeader = [''X-Auth-Token'' \<mapsto> [token],
                                          ''Accept'' \<mapsto> [''application/json'']],
                             ReqBody = None\<rparr>]
             else [HttpNewRequest ''GET'' (url server)]"
  shows "fold (\<lambda>server t. snd (GetFlavorDetails env participant token (S_FlavorID server) t))
              servers tr = tr @ concat (map block servers)"
proof (induction servers arbitrary: tr)
  case Nil
  show ?case by simp
next
  case (Cons server servers)
  have "snd (GetFlavorDetails env participant token (S_FlavorID server) tr)
          = tr @ block server"
    unfolding block_def url_def by (rule GetFlavorDetails_trace_exact)
  then show ?case
    by (simp add: Cons.IH)
qed

text \<open>
  Claim C8. Under the same conditions the call succeeds with one descriptor per server,
  and descriptor \<open>i\<close> carries the id, name, status, address map, power-state code and
  timestamps of server \<open>i\<close>. After the list request the trace is exactly one block of
  library calls per server, in the order of the servers: the building of the request for
  that server's flavor id and, when the request could be built, its sending. The flavor
  of descriptor \<open>i\<close> is the answer of the lookup that starts right after the blocks of
  the servers before it (or the placeholder when that lookup fails), so each lookup is
  complete before the next one starts.
\<close>

theorem GetAllVMInstances_lookups_in_order:
  fixes env participant token
  defines "url \<equiv> \<lambda>server. OpenStackEndpoint participant @ ''/compute/v2.1/flavors/''
                              @ S_FlavorID server"
  defines "block \<equiv> \<lambda>server.
             if newRequestErr env ''GET'' (url server) = None
             then [HttpNewRequest ''GET'' (url server),
                   ClientDo \<lparr>Method = ''GET'', URL = url server,
                             ReqHeader = [''X-Auth-Token'' \<mapsto> [token],
                                          ''Accept'' \<mapsto> [''application/json'']],
                             ReqBody = None\<rparr>]
             else [HttpNewRequest ''GET'' (url server)]"
  assumes "GetAuthToken env participant tr = (Inr token, tr0)"
      and "http_NewRequest env ''GET''
             (OpenStackEndpoint participant @ ''/compute/v2.1/servers/detail'') None tr0
           = (Inr req0, tr1)"
      and "client_Do env
             (setHeader (setHeader req0 ''X-Auth-Token'' token) ''Accept'' ''application/json'')
             tr1 = (Inr resp, tr2)"
      and "BodyErr resp = None" and "StatusCode resp = 200"
      and "unmarshalServers env (Body resp) = Inr servers"
  shows "\<exists>vmInstances.
           GetAllVMInstances env participant tr
             = (Inr vmInstances, tr2 @ concat (map block servers))
         \<and> length vmInstances = length servers
         \<and> (\<forall>i<length servers.
               ID (vmInstances ! i) = S_ID (servers ! i)
             \<and> Name (vmInstances ! i) = S_Name (servers ! i)
             \<and> Status (vmInstances ! i) = S_Status (servers ! i)
             \<and> Addresses (vmInstances ! i) = S_Addresses (servers ! i)
             \<and> PowerState (vmInstances ! i) = S_PowerState (servers ! i)
             \<and> Created (vmInstances ! i) = S_Created (servers ! i)
             \<and> Updated (vmInstances ! i) = S_Updated (servers ! i)
             \<and> Flavor (vmInstances ! i)
                 = (case fst (GetFlavorDetails env participant token
                                (S_FlavorID (servers ! i))
                                (tr2 @ concat (map block (take i servers)))) of
                      Inl err \<Rightarrow> \<lparr>F_ID = S_FlavorID (servers ! i), F_Name = ''Unknown'',
                                   VCPUs = 0, RAM = 0, Disk = 0\<rparr>
                    | Inr flavor \<Rightarrow> flavor))"
proof -
  have trace: "fold (\<lambda>server t. snd (GetFlavorDetails env participant token
                                         (S_FlavorID server) t)) ss t
                 = t @ concat (map block ss)" for ss t
    unfolding block_def url_def by (rule lookups_trace_exact)
  show ?thesis
    unfolding GetAllVMInstances_enriches [OF assms(3-8)]
    by (simp add: enrichServers_closed_form trace mkVMInstance_def unknownFlavor_def
             cong: sum.case_cong)
qed

theorem GetAllVMInstances_lookups_in_order_witness:
  "GetAuthToken demo_env demo_participant [] = (Inr ''abc'', demo_tr0)
   \<and> http_NewRequest demo_env ''GET''
         (OpenStackEndpoint demo_participant @ ''/compute/v2.1/servers/detail'') None demo_tr0
       = (Inr demo_req0, demo_tr1)
   \<and> client_Do demo_env
         (setHeader (setHeader demo_req0 ''X-Auth-Token'' ''abc'') ''Accept''
            ''application/json'') demo_tr1
       = (Inr (demo_response 200 demo_servers_json), demo_tr2)
   \<and> BodyErr (demo_response 200 demo_servers_json) = None
   \<and> StatusCode (demo_response 200 demo_servers_json) = 200
   \<and> unmarshalServers demo_env (Body (demo_response 200 demo_servers_json))
       = Inr [demo_vm1, demo_vm2]
   \<and> 0 < length [demo_vm1, demo_vm2] \<and> Suc 0 < length [demo_vm1, demo_vm2]
   \<and> (\<exists>vmInstances.
         GetAllVMInstances demo_env demo_participant []
           = (Inr vmInstances,
              demo_tr2 @
              [HttpNewRequest ''GET'' ''http://cloud/compute/v2.1/flavors/f1'',
               ClientDo \<lparr>Method = ''GET'', URL = ''http://cloud/compute/v2.1/flavors/f1'',
                         ReqHeader = [''X-Auth-Token'' \<mapsto> [''abc''],
                                      ''Accept'' \<mapsto> [''application/json'']],
                         ReqBody = None\<rparr>,
               HttpNewRequest ''GET'' ''http://cloud/compute/v2.1/flavors/f2'',
               ClientDo \<lparr>Method = ''GET'', URL = ''http://cloud/compute/v2.1/flavors/f2'',
                         ReqHeader = [''X-Auth-Token'' \<mapsto> [''abc''],
                                      ''Accept'' \<mapsto> [''application/json'']],
                         ReqBody = None\<rparr>])
       \<and> length vmInstances = 2
       \<and> ID (vmInstances ! 0) = ''vm-1'' \<and> Name (vmInstances ! 0) = ''alpha''
       \<and> Status (vmInstances ! 0) = ''ACTIVE'' \<and> PowerState (vmInstances ! 0) = 1
       \<and> Flavor (vmInstances ! 0)
           = \<lparr>F_ID = ''f1'', F_Name = ''m1.small'', VCPUs = 1, RAM = 2048, Disk = 20\<rparr>
       \<and> ID (vmInstances ! Suc 0) = ''vm-2'' \<and> Name (vmInstances ! Suc 0) = ''beta''
       \<and> Status (vmInstances ! Suc 0) = ''SHUTOFF'' \<and> PowerState (vmInstances ! Suc 0) = 4
       \<and> Flavor (vmInstances ! Suc 0)
           = \<lparr>F_ID = ''f2'', F_Name = ''Unknown'', VCPUs = 0, RAM = 0, Disk = 0\<rparr>)"
proof -
  let ?block = "\<lambda>server.
      if newRequestErr demo_env ''GET''
           (OpenStackEndpoint demo_participant @ ''/compute/v2.1/flavors/'' @ S_FlavorID server)
         = None
      then [HttpNewRequest ''GET''
              (OpenStackEndpoint demo_participant @ ''/compute/v2.1/flavors/''
                 @ S_FlavorID server),
            ClientDo \<lparr>Method = ''GET'',
                      URL = OpenStackEndpoint demo_participant @ ''/compute/v2.1/flavors/''
                              @ S_FlavorID server,
                      ReqHeader = [''X-Auth-Token'' \<mapsto> [''abc''],
                                   ''Accept'' \<mapsto> [''application/json'']],
                      ReqBody = None\<rparr>]
      else [HttpNewRequest ''GET''
              (OpenStackEndpoint demo_participant @ ''/compute/v2.1/flavors/''
                 @ S_FlavorID server)]"
  obtain vmInstances where
    result: "GetAllVMInstances demo_env demo_participant []
               = (Inr vmInstances, demo_tr2 @ concat (map ?block [demo_vm1, demo_vm2]))"
      "length vmInstances = length [demo_vm1, demo_vm2]"
    and each: "\<forall>i<length [demo_vm1, demo_vm2].
        ID (vmInstances ! i) = S_ID ([demo_vm1, demo_vm2] ! i)
      \<and> Name (vmInstances ! i) = S_Name ([demo_vm1, demo_vm2] ! i)
      \<and> Status (vmInstances ! i) = S_Status ([demo_vm1, demo_vm2] ! i)
      \<and> Addresses (vmInstances ! i) = S_Addresses ([demo_vm1, demo_vm2] ! i)
      \<and> PowerState (vmInstances ! i) = S_PowerState ([demo_vm1, demo_vm2] ! i)
      \<and> Created (vmInstances ! i) = S_Created ([demo_vm1, demo_vm2] ! i)
      \<and> Updated (vmInstances ! i) = S_Updated ([demo_vm1, demo_vm2] ! i)
      \<and> Flavor (vmInstances ! i)
          = (case fst (GetFlavorDetails demo_env demo_participant ''abc''
                         (S_FlavorID ([demo_vm1, demo_vm2] ! i))
                         (demo_tr2 @ concat (map ?block (take i [demo_vm1, demo_vm2])))) of
               Inl err \<Rightarrow> \<lparr>F_ID = S_FlavorID ([demo_vm1, demo_vm2] ! i),
                            F_Name = ''Unknown'', VCPUs = 0, RAM = 0, Disk = 0\<rparr>
             | Inr flavor \<Rightarrow> flavor)"
    using GetAllVMInstances_lookups_in_order [OF demo_list_steps] by blast
  have first: "ID (vmInstances ! 0) = ''vm-1''" "Name (vmInstances ! 0) = ''alpha''"
    "Status (vmInstances ! 0) = ''ACTIVE''" "PowerState (vmInstances ! 0) = 1"
    "Flavor (vmInstances ! 0)
       = \<lparr>F_ID = ''f1'', F_Name = ''m1.small'', VCPUs = 1, RAM = 2048, Disk = 20\<rparr>"
    using each [rule_format, of 0]
    by (simp_all add: demo_server_fields demo_vm1_def demo_flavor_f1 demo_flavor1_def)
  have second: "ID (vmInstances ! Suc 0) = ''vm-2''" "Name (vmInstances ! Suc 0) = ''beta''"
    "Status (vmInstances ! Suc 0) = ''SHUTOFF''" "PowerState (vmInstances ! Suc 0) = 4"
    "Flavor (vmInstances ! Suc 0)
       = \<lparr>F_ID = ''f2'', F_Name = ''Unknown'', VCPUs = 0, RAM = 0, Disk = 0\<rparr>"
    using each [rule_format, of "Suc 0"]
    by (simp_all add: demo_server_fields demo_vm2_def demo_flavor_f2)
  have trace: "demo_tr2 @ concat (map ?block [demo_vm1, demo_vm2])
                 = demo_tr2 @
                   [HttpNewRequest ''GET'' ''http://cloud/compute/v2.1/flavors/f1'',
                    ClientDo \<lparr>Method = ''GET'', URL = ''http://cloud/compute/v2.1/flavors/f1'',
                              ReqHeader = [''X-Auth-Token'' \<mapsto> [''abc''],
                                           ''Accept'' \<mapsto> [''application/json'']],
                              ReqBody = None\<rparr>,
                    HttpNewRequest ''GET'' ''http://cloud/compute/v2.1/flavors/f2'',
                    ClientDo \<lparr>Method = ''GET'', URL = ''http://cloud/compute/v2.1/flavors/f2'',
                              ReqHeader = [''X-Auth-Token'' \<mapsto> [''abc''],
                                           ''Accept'' \<mapsto> [''application/json'']],
                              ReqBody = None\<rparr>]"
    by (simp add: demo_env_fields demo_participant_fields demo_server_fields)
  show ?thesis
    using demo_list_steps result first second unfolding trace by simp
qed

end
